theory Spec2Isabelle
  imports Main
begin

section \<open>JavaScript values and the runtime operations the SDK relies on\<close>

text \<open>
  The SDK handles JSON data of unknown shape (\<^verbatim>\<open>metadata: any\<close>, \<^verbatim>\<open>res.data\<close>), so the
  model keeps a datatype of JavaScript values. Numbers are restricted to integers: the
  SDK never computes with a \<^verbatim>\<open>number\<close>, it only forwards prices. An object is the list of
  its own properties in insertion order.
\<close>

datatype jsval =
    JUndefined
  | JNull
  | JBool bool
  | JNumber int
  | JString string
  | JArray "jsval list"
  | JObject "(string \<times> jsval) list"

text \<open>
  What a \<^verbatim>\<open>throw\<close> or a rejected promise carries, and what \<^verbatim>\<open>catch (error: any)\<close> receives:
  an \<^verbatim>\<open>Error\<close> object, given by its class and its \<^verbatim>\<open>.message\<close> string, or any other value
  (\<open>Thrown v\<close>, plain data), \<^verbatim>\<open>null\<close> and \<^verbatim>\<open>undefined\<close> included.
\<close>

datatype js_error = Error string | TypeError string | SyntaxError string | Thrown jsval

text \<open>A computation that either throws (\<open>Inl\<close>) or yields a value (\<open>Inr\<close>).\<close>

definition bind_result :: "js_error + 'a \<Rightarrow> ('a \<Rightarrow> js_error + 'b) \<Rightarrow> js_error + 'b" where
  "bind_result r f = (case r of Inl e \<Rightarrow> Inl e | Inr x \<Rightarrow> f x)"

text \<open>Truthiness, as tested by \<^verbatim>\<open>if\<close>, \<^verbatim>\<open>&&\<close> and \<^verbatim>\<open>? :\<close>.\<close>

fun truthy :: "jsval \<Rightarrow> bool" where
  "truthy JUndefined = False"
| "truthy JNull = False"
| "truthy (JBool b) = b"
| "truthy (JNumber n) = (n \<noteq> 0)"
| "truthy (JString s) = (s \<noteq> [])"
| "truthy (JArray xs) = True"
| "truthy (JObject fs) = True"

subsection \<open>Decimal digits\<close>

definition is_digit :: "char \<Rightarrow> bool" where
  "is_digit c = (c \<in> set ''0123456789'')"

text \<open>The value of a digit in bases up to sixteen, letters in either case.\<close>

definition digit_table :: "(char \<times> nat) list" where
  "digit_table =
     [(CHR ''0'', 0), (CHR ''1'', 1), (CHR ''2'', 2), (CHR ''3'', 3), (CHR ''4'', 4),
      (CHR ''5'', 5), (CHR ''6'', 6), (CHR ''7'', 7), (CHR ''8'', 8), (CHR ''9'', 9),
      (CHR ''a'', 10), (CHR ''A'', 10), (CHR ''b'', 11), (CHR ''B'', 11),
      (CHR ''c'', 12), (CHR ''C'', 12), (CHR ''d'', 13), (CHR ''D'', 13),
      (CHR ''e'', 14), (CHR ''E'', 14), (CHR ''f'', 15), (CHR ''F'', 15)]"

definition digit_val :: "char \<Rightarrow> nat option" where
  "digit_val c = map_of digit_table c"

fun digit_char :: "nat \<Rightarrow> char" where
  "digit_char n = ''0123456789'' ! (n mod 10)"

text \<open>\<^verbatim>\<open>"" + n\<close> for an integer \<^verbatim>\<open>n\<close>: its decimal numeral.\<close>

fun nat_to_string :: "nat \<Rightarrow> string" where
  "nat_to_string n =
     (if n < 10 then [digit_char n] else nat_to_string (n div 10) @ [digit_char n])"

definition number_to_string :: "int \<Rightarrow> string" where
  "number_to_string i =
     (if i < 0 then CHR ''-'' # nat_to_string (nat (- i)) else nat_to_string (nat i))"

subsection \<open>Property access\<close>

text \<open>
  An array index is a canonical numeric string: digits with no leading zero, or \<^verbatim>\<open>"0"\<close>.
\<close>

definition parse_digits :: "nat \<Rightarrow> string \<Rightarrow> nat option" where
  "parse_digits base s =
     (if s = [] then None
      else foldl (\<lambda>acc c.
             case acc of None \<Rightarrow> None
             | Some a \<Rightarrow> (case digit_val c of None \<Rightarrow> None
                 | Some d \<Rightarrow> if d < base then Some (base * a + d) else None))
           (Some 0) s)"

definition array_index :: "string \<Rightarrow> nat option" where
  "array_index k =
     (if k = ''0'' then Some 0
      else if k \<noteq> [] \<and> hd k \<noteq> CHR ''0'' then parse_digits 10 k
      else None)"

definition quote :: "string \<Rightarrow> string" where
  "quote k = [CHR 0x27] @ k @ [CHR 0x27]"

text \<open>
  \<^verbatim>\<open>v.k\<close> and \<^verbatim>\<open>v[k]\<close>: a \<^verbatim>\<open>TypeError\<close> on \<^verbatim>\<open>undefined\<close> and \<^verbatim>\<open>null\<close>, the own property
  of an object, \<^verbatim>\<open>length\<close> and the indexed elements of an array or a string, and
  \<^verbatim>\<open>undefined\<close> for everything else.
\<close>

fun js_get :: "jsval \<Rightarrow> string \<Rightarrow> js_error + jsval" where
  "js_get JUndefined k =
     Inl (TypeError (''Cannot read properties of undefined (reading '' @ quote k @ '')''))"
| "js_get JNull k =
     Inl (TypeError (''Cannot read properties of null (reading '' @ quote k @ '')''))"
| "js_get (JObject fs) k = Inr (case map_of fs k of None \<Rightarrow> JUndefined | Some v \<Rightarrow> v)"
| "js_get (JArray xs) k =
     Inr (if k = ''length'' then JNumber (int (length xs))
          else case array_index k of
                 None \<Rightarrow> JUndefined
               | Some i \<Rightarrow> if i < length xs then xs ! i else JUndefined)"
| "js_get (JString s) k =
     Inr (if k = ''length'' then JNumber (int (length s))
          else case array_index k of
                 None \<Rightarrow> JUndefined
               | Some i \<Rightarrow> if i < length s then JString [s ! i] else JUndefined)"
| "js_get (JBool b) k = Inr JUndefined"
| "js_get (JNumber n) k = Inr JUndefined"

text \<open>\<^verbatim>\<open>v?.k\<close>: \<^verbatim>\<open>undefined\<close> instead of a \<^verbatim>\<open>TypeError\<close> on \<^verbatim>\<open>undefined\<close> and \<^verbatim>\<open>null\<close>.\<close>

definition js_get_opt :: "jsval \<Rightarrow> string \<Rightarrow> js_error + jsval" where
  "js_get_opt v k = (if v = JUndefined \<or> v = JNull then Inr JUndefined else js_get v k)"

text \<open>
  \<^verbatim>\<open>error.message\<close> for a caught value: the message of an \<^verbatim>\<open>Error\<close> object, and a property
  read for any other value, which throws on \<^verbatim>\<open>null\<close> and \<^verbatim>\<open>undefined\<close>.
\<close>

fun error_message :: "js_error \<Rightarrow> js_error + jsval" where
  "error_message (Error m) = Inr (JString m)"
| "error_message (TypeError m) = Inr (JString m)"
| "error_message (SyntaxError m) = Inr (JString m)"
| "error_message (Thrown v) = js_get v ''message''"

text \<open>
  The test \<^verbatim>\<open>res.data?.length && res.data[0].<field>\<close> of every write operation: the
  value of the \<^verbatim>\<open>&&\<close> expression, whose right operand is evaluated only when the left
  one is truthy.
\<close>

definition first_element_field :: "jsval \<Rightarrow> string \<Rightarrow> js_error + jsval" where
  "first_element_field d field =
     bind_result (js_get_opt d ''length'') (\<lambda>len.
       if truthy len
       then bind_result (js_get d ''0'') (\<lambda>d0. js_get d0 field)
       else Inr len)"

subsection \<open>\<^verbatim>\<open>JSON.stringify\<close>\<close>

text \<open>
  The request bodies are produced by \<^verbatim>\<open>JSON.stringify\<close>. The model keeps the JSON document
  that the produced text denotes: a property whose value serialises to \<^verbatim>\<open>undefined\<close> is
  left out of its object, and such an element of an array becomes \<^verbatim>\<open>null\<close>.
\<close>

primrec JSON_stringify :: "jsval \<Rightarrow> jsval" where
  "JSON_stringify JUndefined = JUndefined"
| "JSON_stringify JNull = JNull"
| "JSON_stringify (JBool b) = JBool b"
| "JSON_stringify (JNumber n) = JNumber n"
| "JSON_stringify (JString s) = JString s"
| "JSON_stringify (JArray xs) =
     JArray (map (\<lambda>v. if v = JUndefined then JNull else v) (map JSON_stringify xs))"
| "JSON_stringify (JObject fs) =
     JObject (filter (\<lambda>kv. snd kv \<noteq> JUndefined) (map (map_prod id JSON_stringify) fs))"

subsection \<open>\<^verbatim>\<open>BigInt\<close>\<close>

definition is_space :: "char \<Rightarrow> bool" where
  "is_space c = (c \<in> {CHR 0x09, CHR 0x0A, CHR 0x0B, CHR 0x0C, CHR 0x0D, CHR 0x20})"

definition trim :: "string \<Rightarrow> string" where
  "trim s = rev (dropWhile is_space (rev (dropWhile is_space s)))"

text \<open>
  \<^verbatim>\<open>StringToBigInt\<close>: white space is trimmed (strings are byte strings here, so the
  ASCII white space characters); the empty string is 0; a \<^verbatim>\<open>0x\<close>, \<^verbatim>\<open>0o\<close> or \<^verbatim>\<open>0b\<close> prefix
  selects the base; otherwise an optional sign and decimal digits. \<open>None\<close> is the
  \<^verbatim>\<open>SyntaxError\<close>.
\<close>

fun StringToBigInt_trimmed :: "string \<Rightarrow> int option" where
  "StringToBigInt_trimmed [] = Some 0"
| "StringToBigInt_trimmed (c # cs) =
     (if c = CHR ''0'' \<and> cs \<noteq> [] \<and> hd cs \<in> {CHR ''x'', CHR ''X''}
        then map_option int (parse_digits 16 (tl cs))
      else if c = CHR ''0'' \<and> cs \<noteq> [] \<and> hd cs \<in> {CHR ''o'', CHR ''O''}
        then map_option int (parse_digits 8 (tl cs))
      else if c = CHR ''0'' \<and> cs \<noteq> [] \<and> hd cs \<in> {CHR ''b'', CHR ''B''}
        then map_option int (parse_digits 2 (tl cs))
      else if c = CHR ''-'' then map_option (\<lambda>n. - int n) (parse_digits 10 cs)
      else if c = CHR ''+'' then map_option int (parse_digits 10 cs)
      else map_option int (parse_digits 10 (c # cs)))"

definition StringToBigInt :: "string \<Rightarrow> int option" where
  "StringToBigInt s = StringToBigInt_trimmed (trim s)"

text \<open>\<^verbatim>\<open>String(v)\<close> for the values an object or array is converted through.\<close>

fun join_comma :: "string list \<Rightarrow> string" where
  "join_comma [] = []"
| "join_comma [s] = s"
| "join_comma (s # t # ss) = s @ '','' @ join_comma (t # ss)"

fun js_to_string :: "jsval \<Rightarrow> string" where
  "js_to_string JUndefined = ''undefined''"
| "js_to_string JNull = ''null''"
| "js_to_string (JBool b) = (if b then ''true'' else ''false'')"
| "js_to_string (JNumber n) = number_to_string n"
| "js_to_string (JString s) = s"
| "js_to_string (JArray xs) =
     join_comma (map (\<lambda>v. if v = JUndefined \<or> v = JNull then [] else js_to_string v) xs)"
| "js_to_string (JObject fs) = ''[object Object]''"

definition BigInt_of_string :: "string \<Rightarrow> js_error + int" where
  "BigInt_of_string s =
     (case StringToBigInt s of
        None \<Rightarrow> Inl (SyntaxError (''Cannot convert '' @ s @ '' to a BigInt''))
      | Some n \<Rightarrow> Inr n)"

fun BigInt :: "jsval \<Rightarrow> js_error + int" where
  "BigInt JUndefined = Inl (TypeError ''Cannot convert undefined to a BigInt'')"
| "BigInt JNull = Inl (TypeError ''Cannot convert null to a BigInt'')"
| "BigInt (JBool b) = Inr (if b then 1 else 0)"
| "BigInt (JNumber n) = Inr n"
| "BigInt (JString s) = BigInt_of_string s"
| "BigInt (JArray xs) = BigInt_of_string (js_to_string (JArray xs))"
| "BigInt (JObject fs) = BigInt_of_string (js_to_string (JObject fs))"

text \<open>
  \<^verbatim>\<open>v.map(f)\<close> where \<^verbatim>\<open>f\<close> may throw: only an array has the method; the first exception
  of \<^verbatim>\<open>f\<close> ends the traversal.
\<close>

fun map_result :: "('a \<Rightarrow> js_error + 'b) \<Rightarrow> 'a list \<Rightarrow> js_error + 'b list" where
  "map_result f [] = Inr []"
| "map_result f (x # xs) =
     bind_result (f x) (\<lambda>y. bind_result (map_result f xs) (\<lambda>ys. Inr (y # ys)))"

fun js_map :: "jsval \<Rightarrow> string \<Rightarrow> (jsval \<Rightarrow> js_error + 'b) \<Rightarrow> js_error + 'b list" where
  "js_map (JArray xs) expr f = map_result f xs"
| "js_map JUndefined expr f =
     Inl (TypeError (''Cannot read properties of undefined (reading '' @ quote ''map'' @ '')''))"
| "js_map JNull expr f =
     Inl (TypeError (''Cannot read properties of null (reading '' @ quote ''map'' @ '')''))"
| "js_map v expr f = Inl (TypeError (expr @ ''.map is not a function''))"

text \<open>\<^verbatim>\<open>xs.reduce((a, b) => a + b)\<close> with no initial value.\<close>

fun reduce_plus :: "int list \<Rightarrow> js_error + int" where
  "reduce_plus [] = Inl (TypeError ''Reduce of empty array with no initial value'')"
| "reduce_plus (x # xs) = Inr (foldl (\<lambda>a b. a + b) x xs)"

section \<open>Requests, responses and the external collaborators\<close>

text \<open>
  The configuration object handed to \<^verbatim>\<open>axios.request\<close>. \<open>http_method\<close> is its \<^verbatim>\<open>method\<close>
  field, \<open>data\<close> is the document of the body text, and \<open>maxBodyLength\<close> is \<open>True\<close> where
  the source sets it to \<^verbatim>\<open>Infinity\<close>.
\<close>

record request =
  http_method :: string
  url :: string
  headers :: "(string \<times> string) list"
  data :: jsval
  maxBodyLength :: bool

text \<open>The HTTP response of \<^verbatim>\<open>axios.request\<close>: status and parsed body.\<close>

record response =
  res_status :: int
  res_data :: jsval

text \<open>The transaction handed to \<^verbatim>\<open>handleSignAndExecute\<close>; \<open>tx_value\<close> is absent but for a purchase.\<close>

record tx =
  tx_data :: jsval
  tx_value :: "int option"

text \<open>The receipt of a mined transaction, as far as the SDK reads it.\<close>

record receipt =
  rc_status :: "int option"
  transactionHash :: "string option"

text \<open>
  The object every broadcasting operation resolves to. \<open>digest\<close> is \<^verbatim>\<open>null\<close> (\<open>None\<close>) or
  the hash; \<open>errors\<close> is \<^verbatim>\<open>null\<close>, a message of the SDK, or whatever \<^verbatim>\<open>error.message\<close>
  evaluates to in the \<^verbatim>\<open>catch\<close> block.
\<close>

record trade_result =
  digest :: "string option"
  errors :: jsval
  tokensPurchased :: "jsval list option"

text \<open>
  The Trade Client: \<open>wallet\<close> is the address of the wallet it is bound to, \<open>provider\<close> the
  RPC endpoint.
\<close>

record MPSDK =
  wallet :: string
  provider :: string
  apiKey :: string

definition constructor :: "string \<Rightarrow> string \<Rightarrow> string \<Rightarrow> MPSDK" where
  "constructor apiKey' wallet' rpc = \<lparr>wallet = wallet', provider = rpc, apiKey = apiKey'\<rparr>"

text \<open>
  The helpers of \<^verbatim>\<open>./utils/helpers\<close>, \<^verbatim>\<open>axios.request\<close> and \<^verbatim>\<open>JSON.parse\<close> are outside the
  two source files. They are parameters of the model: each answers a call either with
  a value or with a thrown error, and the answer depends on the arguments of the call
  only. The wallet and the provider every helper receives are those of the client and
  are left out of the arguments.
\<close>

record world =
  getWavaxBalance :: "string \<Rightarrow> js_error + int"
  getWavaxApprovalStatus :: "string \<Rightarrow> int \<Rightarrow> js_error + bool"
  approveWavax :: "js_error + receipt"
  getERC721ApprovalStatus :: "string \<Rightarrow> string \<Rightarrow> js_error + bool"
  approveErc721 :: "string \<Rightarrow> js_error + receipt"
  axios_request :: "request \<Rightarrow> js_error + response"
  handleSignTransaction :: "jsval \<Rightarrow> js_error + string"
  handleSignAndExecute :: "tx \<Rightarrow> js_error + receipt"
  JSON_parse :: "string \<Rightarrow> js_error + jsval"

text \<open>What an operation does to the outside, in order.\<close>

datatype event =
    Call_getWavaxBalance string
  | Call_getWavaxApprovalStatus string int
  | Call_approveWavax
  | Call_getERC721ApprovalStatus string string
  | Call_approveErc721 string
  | Call_axios_request request
  | Call_handleSignTransaction jsval
  | Call_handleSignAndExecute tx
  | Console_log string
  | Console_log_error js_error

subsection \<open>Asynchronous code as a trace-passing computation\<close>

text \<open>
  An \<^verbatim>\<open>async\<close> function is a function from the trace so far to the extended trace and
  either the thrown error (a rejected promise) or the value it resolves to.
\<close>

type_synonym 'a io = "event list \<Rightarrow> event list \<times> (js_error + 'a)"

definition return_io :: "'a \<Rightarrow> 'a io" where
  "return_io x = (\<lambda>t. (t, Inr x))"

definition lift :: "js_error + 'a \<Rightarrow> 'a io" where
  "lift r = (\<lambda>t. (t, r))"

definition call :: "event \<Rightarrow> js_error + 'a \<Rightarrow> 'a io" where
  "call ev r = (\<lambda>t. (t @ [ev], r))"

definition await :: "'a io \<Rightarrow> ('a \<Rightarrow> 'b io) \<Rightarrow> 'b io" where
  "await m f = (\<lambda>t. case m t of (t', Inl e) \<Rightarrow> (t', Inl e) | (t', Inr x) \<Rightarrow> f x t')"

definition try_catch :: "'a io \<Rightarrow> (js_error \<Rightarrow> 'a io) \<Rightarrow> 'a io" where
  "try_catch m h = (\<lambda>t. case m t of (t', Inl e) \<Rightarrow> h e t' | (t', Inr x) \<Rightarrow> (t', Inr x))"

definition run :: "'a io \<Rightarrow> event list \<times> (js_error + 'a)" where
  "run m = m []"

definition console_log :: "string \<Rightarrow> unit io" where
  "console_log s = call (Console_log s) (Inr ())"

text \<open>A template literal prints an absent hash as \<^verbatim>\<open>undefined\<close>.\<close>

definition template :: "string option \<Rightarrow> string" where
  "template h = (case h of None \<Rightarrow> ''undefined'' | Some s \<Rightarrow> s)"

text \<open>\<^verbatim>\<open>if (h)\<close> for a hash: present and not the empty string.\<close>

definition truthy_hash :: "string option \<Rightarrow> bool" where
  "truthy_hash h = (case h of None \<Rightarrow> False | Some s \<Rightarrow> s \<noteq> [])"

text \<open>
  Every configuration in the two files has the method \<^verbatim>\<open>"post"\<close> and the same two
  headers; \<open>post\<close> is that literal for a given URL, key and body.
\<close>

definition json_headers :: "string \<Rightarrow> (string \<times> string) list" where
  "json_headers key = [(''Content-Type'', ''application/json''), (''Authorization'', key)]"

definition post :: "string \<Rightarrow> string \<Rightarrow> jsval \<Rightarrow> request" where
  "post u key body =
     \<lparr>http_method = ''post'', url = u, headers = json_headers key, data = body,
      maxBodyLength = False\<rparr>"

section \<open>The Trade Client (\<^verbatim>\<open>src/index.ts\<close>)\<close>

text \<open>
  Each operation builds the body and the configuration of its request before it sends
  it; the model names that part of the operation \<open>_requestConfig\<close>.
\<close>

definition validateSignature_config :: "MPSDK \<Rightarrow> jsval \<Rightarrow> request" where
  "validateSignature_config sdk orderObject =
     (let body = JSON_stringify (JObject [(''order'', orderObject)])
      in post ''https://avax.api.hyperspace.xyz/rest/validate-signature'' (apiKey sdk) body)"

definition validateSignature :: "world \<Rightarrow> MPSDK \<Rightarrow> jsval \<Rightarrow> response io" where
  "validateSignature w sdk orderObject =
     (let config = validateSignature_config sdk orderObject
      in call (Call_axios_request config) (axios_request w config))"

text \<open>
  \<open>createCollectionBid\<close> and \<open>listNFT\<close> have no \<^verbatim>\<open>try\<close>: whatever a step throws rejects the
  returned promise. They resolve to the validation response, or to \<^verbatim>\<open>undefined\<close>
  (\<open>None\<close>) when the \<^verbatim>\<open>if\<close> is not entered.
\<close>

definition createCollectionBid_requestConfig :: "MPSDK \<Rightarrow> string \<Rightarrow> int \<Rightarrow> request" where
  "createCollectionBid_requestConfig sdk contractAddress priceInNavax =
     (let bidder = wallet sdk;
          body = JSON_stringify (JObject [(''condition'', JObject
                   [(''price'', JNumber priceInNavax),
                    (''buyer_address'', JString bidder),
                    (''metadata'', JObject
                       [(''contractAddress'', JString contractAddress),
                        (''price'', JString (number_to_string priceInNavax))])])])
      in post ''https://avax.api.hyperspace.xyz/rest/create-collection-bid-tx''
           (apiKey sdk) body)"

definition createCollectionBid ::
  "world \<Rightarrow> MPSDK \<Rightarrow> string \<Rightarrow> int \<Rightarrow> response option io" where
  "createCollectionBid w sdk contractAddress priceInNavax =
     (let bidder = wallet sdk in
      await (call (Call_getWavaxBalance bidder) (getWavaxBalance w bidder)) (\<lambda>wavaxBalance.
      await (call (Call_getWavaxApprovalStatus bidder wavaxBalance)
               (getWavaxApprovalStatus w bidder wavaxBalance)) (\<lambda>approved.
      await (if \<not> approved
             then await (console_log ''Approving marketplace to trade wavax'') (\<lambda>_.
                  await (call Call_approveWavax (approveWavax w)) (\<lambda>approveNFTReceipt.
                  console_log (''Approve wavax Transaction Hash: '' @
                    template (transactionHash approveNFTReceipt))))
             else return_io ()) (\<lambda>_.
      let requestConfig = createCollectionBid_requestConfig sdk contractAddress priceInNavax in
      await (call (Call_axios_request requestConfig) (axios_request w requestConfig)) (\<lambda>res.
      await (lift (first_element_field (res_data res) ''metadata'')) (\<lambda>c.
      if truthy c
      then await (lift (bind_result (js_get (res_data res) ''0'')
                          (\<lambda>d0. js_get d0 ''metadata''))) (\<lambda>orderData.
           await (call (Call_handleSignTransaction orderData)
                    (handleSignTransaction w orderData)) (\<lambda>transactionBlockBytes.
           await (lift (JSON_parse w transactionBlockBytes)) (\<lambda>orderObject.
           await (validateSignature w sdk orderObject) (\<lambda>isValidRes.
           return_io (Some isValidRes)))))
      else return_io None))))))"

definition listNFT_requestConfig :: "MPSDK \<Rightarrow> string \<Rightarrow> string \<Rightarrow> int \<Rightarrow> request" where
  "listNFT_requestConfig sdk contractAddress tokenId price =
     (let seller = wallet sdk;
          tokenAddress = contractAddress @ ''_'' @ tokenId;
          body = JSON_stringify (JObject [(''condition'', JObject
                   [(''list_tx_args'', JArray [JObject
                       [(''token_address'', JString tokenAddress),
                        (''seller_address'', JString seller),
                        (''metadata'', JObject
                           [(''contractAddress'', JString contractAddress),
                            (''tokenId'', JString tokenId),
                            (''price'', JString (number_to_string price))])]])])])
      in post ''https://avax.api.hyperspace.xyz/rest/create-list-tx'' (apiKey sdk) body)"

definition listNFT ::
  "world \<Rightarrow> MPSDK \<Rightarrow> string \<Rightarrow> string \<Rightarrow> int \<Rightarrow> response option io" where
  "listNFT w sdk contractAddress tokenId price =
     (let seller = wallet sdk in
      await (call (Call_getERC721ApprovalStatus seller contractAddress)
               (getERC721ApprovalStatus w seller contractAddress)) (\<lambda>approved.
      await (if \<not> approved
             then await (console_log (''Approving marketplace to trade '' @ contractAddress)) (\<lambda>_.
                  await (call (Call_approveErc721 contractAddress)
                           (approveErc721 w contractAddress)) (\<lambda>approveNFTReceipt.
                  console_log (''Approve ERC721 Transaction Hash: '' @
                    template (transactionHash approveNFTReceipt))))
             else return_io ()) (\<lambda>_.
      let requestConfig = listNFT_requestConfig sdk contractAddress tokenId price in
      await (call (Call_axios_request requestConfig) (axios_request w requestConfig)) (\<lambda>res.
      await (lift (first_element_field (res_data res) ''metadata'')) (\<lambda>c.
      if truthy c
      then await (lift (bind_result (js_get (res_data res) ''0'')
                          (\<lambda>d0. js_get d0 ''metadata''))) (\<lambda>orderData.
           await (call (Call_handleSignTransaction orderData)
                    (handleSignTransaction w orderData)) (\<lambda>transactionBlockBytes.
           await (lift (JSON_parse w transactionBlockBytes)) (\<lambda>orderObject.
           await (validateSignature w sdk orderObject) (\<lambda>isValidRes.
           return_io (Some isValidRes)))))
      else return_io None)))))"

text \<open>
  The payment of a purchase: the elements of the array literal are evaluated from left
  to right, then reduced. The literal always holds the listed amount, so the array
  that is reduced is never empty.
\<close>

definition totalAmountToPay :: "jsval \<Rightarrow> js_error + int" where
  "totalAmountToPay metadata =
     bind_result (js_get metadata ''event_log'') (\<lambda>event_log.
     bind_result (js_get event_log ''erc20TokenAmount'') (\<lambda>erc20TokenAmount.
     bind_result (BigInt erc20TokenAmount) (\<lambda>a.
     bind_result (js_get metadata ''event_log'') (\<lambda>event_log.
     bind_result (js_get event_log ''fees'') (\<lambda>fees.
     bind_result (js_map fees ''metadata.event_log.fees''
                    (\<lambda>fee. bind_result (js_get fee ''amount'') BigInt)) (\<lambda>fs.
     reduce_plus (a # fs)))))))"

text \<open>
  The \<^verbatim>\<open>catch\<close> block, the same in the four broadcasting operations: it logs the caught
  value and reads its \<^verbatim>\<open>.message\<close>; when that read throws, the exception leaves the
  operation.
\<close>

definition catch_error :: "js_error \<Rightarrow> trade_result io" where
  "catch_error error =
     await (call (Console_log_error error) (Inr ())) (\<lambda>_.
     await (lift (error_message error)) (\<lambda>msg.
     return_io \<lparr>digest = None, errors = msg, tokensPurchased = None\<rparr>))"

definition buyNft_requestConfig ::
  "MPSDK \<Rightarrow> string \<Rightarrow> string \<Rightarrow> int \<Rightarrow> jsval \<Rightarrow> request" where
  "buyNft_requestConfig sdk contractAddress tokenId price metadata =
     (let tokenAddress = contractAddress @ ''_'' @ tokenId;
          buyer = wallet sdk;
          buyTxArgs = JArray [JObject
            [(''buyer_address'', JString buyer),
             (''token_address'', JString tokenAddress),
             (''price'', JNumber price),
             (''metadata'', metadata)]];
          body = JSON_stringify (JObject [(''condition'', JObject
                   [(''buy_tx_args'', buyTxArgs)])])
      in post ''https://avax.api.hyperspace.xyz/rest/create-buy-tx'' (apiKey sdk) body)"

definition buyNft ::
  "world \<Rightarrow> MPSDK \<Rightarrow> string \<Rightarrow> string \<Rightarrow> int \<Rightarrow> jsval \<Rightarrow> trade_result io" where
  "buyNft w sdk contractAddress tokenId price metadata =
     try_catch
       (let requestConfig = buyNft_requestConfig sdk contractAddress tokenId price metadata in
        await (call (Call_axios_request requestConfig) (axios_request w requestConfig)) (\<lambda>res.
        await (lift (totalAmountToPay metadata)) (\<lambda>totalAmountToPay.
        await (lift (first_element_field (res_data res) ''byte_string'')) (\<lambda>c.
        if truthy c
        then await (lift (bind_result (js_get (res_data res) ''0'')
                            (\<lambda>d0. js_get d0 ''byte_string''))) (\<lambda>encodedTransaction.
             let t = \<lparr>tx_data = encodedTransaction, tx_value = Some totalAmountToPay\<rparr> in
             await (call (Call_handleSignAndExecute t) (handleSignAndExecute w t)) (\<lambda>txReceipt.
             if rc_status txReceipt = Some 1 \<and> truthy_hash (transactionHash txReceipt)
             then return_io \<lparr>digest = transactionHash txReceipt, errors = JNull,
                             tokensPurchased = None\<rparr>
             else return_io \<lparr>digest = None,
                    errors = JString ''Failed to sign and execute purchase transaction'',
                    tokensPurchased = None\<rparr>))
        else return_io \<lparr>digest = None, errors = JString ''Failed to create buy txn'',
               tokensPurchased = Some []\<rparr>))))
       catch_error"

definition acceptCollectionBid_requestConfig ::
  "MPSDK \<Rightarrow> string \<Rightarrow> string \<Rightarrow> int \<Rightarrow> jsval \<Rightarrow> request" where
  "acceptCollectionBid_requestConfig sdk contractAddress tokenId price metadata =
     (let seller = wallet sdk;
          body = JSON_stringify (JObject [(''condition'', JObject
                   [(''token_address'', JString (contractAddress @ ''_'' @ tokenId)),
                    (''price'', JNumber price),
                    (''seller_address'', JString seller),
                    (''metadata'', metadata)])])
      in post ''https://avax.api.hyperspace.xyz/rest/create-accept-collection-bid-tx''
           (apiKey sdk) body)"

definition acceptCollectionBid ::
  "world \<Rightarrow> MPSDK \<Rightarrow> string \<Rightarrow> string \<Rightarrow> int \<Rightarrow> jsval \<Rightarrow> trade_result io" where
  "acceptCollectionBid w sdk contractAddress tokenId price metadata =
     (let seller = wallet sdk in
      try_catch
        (await (call (Call_getERC721ApprovalStatus seller contractAddress)
                  (getERC721ApprovalStatus w seller contractAddress)) (\<lambda>approved.
         await (if \<not> approved
                then await (console_log (''Approving marketplace to trade '' @ contractAddress)) (\<lambda>_.
                     await (call (Call_approveErc721 contractAddress)
                              (approveErc721 w contractAddress)) (\<lambda>approveNFTReceipt.
                     console_log (''Approve ERC721 Transaction Hash: '' @
                       template (transactionHash approveNFTReceipt))))
                else return_io ()) (\<lambda>_.
         let requestConfig =
               acceptCollectionBid_requestConfig sdk contractAddress tokenId price metadata in
         await (call (Call_axios_request requestConfig) (axios_request w requestConfig)) (\<lambda>res.
         await (lift (first_element_field (res_data res) ''byte_string'')) (\<lambda>c.
         if truthy c
         then await (lift (bind_result (js_get (res_data res) ''0'')
                             (\<lambda>d0. js_get d0 ''byte_string''))) (\<lambda>encodedTransaction.
              let t = \<lparr>tx_data = encodedTransaction, tx_value = None\<rparr> in
              await (call (Call_handleSignAndExecute t) (handleSignAndExecute w t)) (\<lambda>txReceipt.
              if rc_status txReceipt = Some 1 \<and> truthy_hash (transactionHash txReceipt)
              then return_io \<lparr>digest = transactionHash txReceipt, errors = JNull,
                              tokensPurchased = None\<rparr>
              else return_io \<lparr>digest = None,
                     errors = JString ''Failed to sign and execute accept collection bid transaction'',
                     tokensPurchased = None\<rparr>))
         else return_io \<lparr>digest = None,
                errors = JString ''Failed to create accept collection bid txn'',
                tokensPurchased = Some []\<rparr>)))))
        catch_error)"

definition delistNFT_requestConfig ::
  "MPSDK \<Rightarrow> string \<Rightarrow> string \<Rightarrow> int \<Rightarrow> jsval \<Rightarrow> request" where
  "delistNFT_requestConfig sdk contractAddress tokenId price metadata =
     (let seller = wallet sdk;
          tokenAddress = contractAddress @ ''_'' @ tokenId;
          body = JSON_stringify (JObject [(''condition'', JObject
                   [(''delist_tx_args'', JArray [JObject
                       [(''seller_address'', JString seller),
                        (''token_address'', JString tokenAddress),
                        (''price'', JNumber price),
                        (''metadata'', metadata)]])])])
      in post ''https://avax.api.hyperspace.xyz/rest/create-delist-tx'' (apiKey sdk) body)"

definition delistNFT ::
  "world \<Rightarrow> MPSDK \<Rightarrow> string \<Rightarrow> string \<Rightarrow> int \<Rightarrow> jsval \<Rightarrow> trade_result io" where
  "delistNFT w sdk contractAddress tokenId price metadata =
     try_catch
       (let requestConfig = delistNFT_requestConfig sdk contractAddress tokenId price metadata in
        await (call (Call_axios_request requestConfig) (axios_request w requestConfig)) (\<lambda>res.
        await (lift (first_element_field (res_data res) ''byte_string'')) (\<lambda>c.
        if truthy c
        then await (lift (bind_result (js_get (res_data res) ''0'')
                            (\<lambda>d0. js_get d0 ''byte_string''))) (\<lambda>encodedTransaction.
             let t = \<lparr>tx_data = encodedTransaction, tx_value = None\<rparr> in
             await (call (Call_handleSignAndExecute t) (handleSignAndExecute w t)) (\<lambda>txHash.
             if truthy_hash (transactionHash txHash)
             then return_io \<lparr>digest = transactionHash txHash, errors = JNull,
                             tokensPurchased = None\<rparr>
             else return_io \<lparr>digest = None,
                    errors = JString ''Failed to sign and execute delist transaction'',
                    tokensPurchased = None\<rparr>))
        else return_io \<lparr>digest = None, errors = JString ''Failed to create delist txn'',
               tokensPurchased = None\<rparr>)))
       catch_error"

definition cancelCollectionBid_requestConfig :: "MPSDK \<Rightarrow> int \<Rightarrow> jsval \<Rightarrow> request" where
  "cancelCollectionBid_requestConfig sdk price metadata =
     (let bidder = wallet sdk;
          body = JSON_stringify (JObject [(''condition'', JObject
                   [(''buyer_address'', JString bidder),
                    (''price'', JNumber price),
                    (''metadata'', metadata)])])
      in post ''https://avax.api.hyperspace.xyz/rest/create-cancel-collection-bid-tx''
           (apiKey sdk) body)"

definition cancelCollectionBid ::
  "world \<Rightarrow> MPSDK \<Rightarrow> int \<Rightarrow> jsval \<Rightarrow> trade_result io" where
  "cancelCollectionBid w sdk price metadata =
     try_catch
       (let requestConfig = cancelCollectionBid_requestConfig sdk price metadata in
        await (call (Call_axios_request requestConfig) (axios_request w requestConfig)) (\<lambda>res.
        await (lift (first_element_field (res_data res) ''byte_string'')) (\<lambda>c.
        if truthy c
        then await (lift (bind_result (js_get (res_data res) ''0'')
                            (\<lambda>d0. js_get d0 ''byte_string''))) (\<lambda>encodedTransaction.
             let t = \<lparr>tx_data = encodedTransaction, tx_value = None\<rparr> in
             await (call (Call_handleSignAndExecute t) (handleSignAndExecute w t)) (\<lambda>txHash.
             if truthy_hash (transactionHash txHash)
             then return_io \<lparr>digest = transactionHash txHash, errors = JNull,
                             tokensPurchased = None\<rparr>
             else return_io \<lparr>digest = None,
                    errors = JString ''Failed to sign and execute cancel collection bid transaction'',
                    tokensPurchased = None\<rparr>))
        else return_io \<lparr>digest = None,
               errors = JString ''Failed to create cancel collection bid txn'',
               tokensPurchased = None\<rparr>)))
       catch_error"

section \<open>The Query Client (\<^verbatim>\<open>src/read.ts\<close>)\<close>

text \<open>The key of the Query Client is a constant of the module.\<close>

definition API_KEY :: string where
  "API_KEY = []"

text \<open>
  An optional string parameter is \<open>None\<close> when the caller leaves it out; as a value
  it is then \<^verbatim>\<open>undefined\<close>. \<^verbatim>\<open>PaginationConfig\<close> and \<^verbatim>\<open>OrderConfig\<close> are declared in
  \<^verbatim>\<open>./types\<close>, outside the two source files: the model takes them as values, \<open>JUndefined\<close>
  when left out.
\<close>

definition opt_string :: "string option \<Rightarrow> jsval" where
  "opt_string x = (case x of None \<Rightarrow> JUndefined | Some s \<Rightarrow> JString s)"

definition opt_strings :: "string list option \<Rightarrow> jsval" where
  "opt_strings x = (case x of None \<Rightarrow> JUndefined | Some xs \<Rightarrow> JArray (map JString xs))"

text \<open>Every operation ends with \<^verbatim>\<open>return await axios.request(config)\<close>.\<close>

definition request_of :: "world \<Rightarrow> request \<Rightarrow> response io" where
  "request_of w config = call (Call_axios_request config) (axios_request w config)"

definition getUserOwnedNFTs_config :: "string \<Rightarrow> string option \<Rightarrow> jsval \<Rightarrow> request" where
  "getUserOwnedNFTs_config walletAddress collection pagination =
     (let condition =
            (if truthy (opt_string collection)
             then JObject
               [(''condition'', JObject
                   [(''owner'', JString walletAddress),
                    (''project_ids'', JArray [JObject [(''project_id'', opt_string collection)]])]),
                (''pagination_info'', pagination)]
             else JObject
               [(''condition'', JObject [(''owner'', JString walletAddress)]),
                (''pagination_info'', pagination)]);
          body = JSON_stringify condition
      in post ''https://avax.api.hyperspace.xyz/rest/get-marketplace-snapshots'' API_KEY body)"

definition getUserOwnedNFTs ::
  "world \<Rightarrow> string \<Rightarrow> string option \<Rightarrow> jsval \<Rightarrow> response io" where
  "getUserOwnedNFTs w walletAddress collection pagination =
     request_of w (getUserOwnedNFTs_config walletAddress collection pagination)"

definition getCollectionBids_config :: "string \<Rightarrow> jsval \<Rightarrow> request" where
  "getCollectionBids_config collection pagination =
     (let condition = JObject
            [(''condition'', JObject [(''contract_address'', JString collection)]),
             (''pagination_info'', pagination)];
          body = JSON_stringify condition
      in post ''https://avax.api.hyperspace.xyz/rest/get-collection-bids-for-project''
           API_KEY body)"

definition getCollectionBids :: "world \<Rightarrow> string \<Rightarrow> jsval \<Rightarrow> response io" where
  "getCollectionBids w collection pagination =
     request_of w (getCollectionBids_config collection pagination)"

definition getUserCollectionBids_config :: "string \<Rightarrow> string \<Rightarrow> jsval \<Rightarrow> request" where
  "getUserCollectionBids_config collection walletAddress pagination =
     (let condition = JObject
            [(''condition'', JObject
                [(''contract_address'', JString collection),
                 (''buyer_address'', JString walletAddress)]),
             (''pagination_info'', pagination)];
          body = JSON_stringify condition
      in post ''https://avax.api.hyperspace.xyz/rest/get-collection-bids-for-project-and-user''
           API_KEY body)"

definition getUserCollectionBids ::
  "world \<Rightarrow> string \<Rightarrow> string \<Rightarrow> jsval \<Rightarrow> response io" where
  "getUserCollectionBids w collection walletAddress pagination =
     request_of w (getUserCollectionBids_config collection walletAddress pagination)"

definition getUserListings_config :: "string \<Rightarrow> string option \<Rightarrow> jsval \<Rightarrow> request" where
  "getUserListings_config walletAddress collection pagination =
     (let condition = JObject
            [(''condition'', JObject
                [(''owner'', JString walletAddress),
                 (''project_ids'', JArray [JObject [(''project_id'', opt_string collection)]]),
                 (''listing_type'', JString ''NORMAL'')]),
             (''pagination_info'', pagination)];
          body = JSON_stringify condition
      in post ''https://avax.api.hyperspace.xyz/rest/get-marketplace-snapshot'' API_KEY body)"

definition getUserListings ::
  "world \<Rightarrow> string \<Rightarrow> string option \<Rightarrow> jsval \<Rightarrow> response io" where
  "getUserListings w walletAddress collection pagination =
     request_of w (getUserListings_config walletAddress collection pagination)"

definition getCollectionActivity_config ::
  "string \<Rightarrow> string list option \<Rightarrow> jsval \<Rightarrow> request" where
  "getCollectionActivity_config collection actionTypes pagination =
     (let body = JSON_stringify (JObject
            [(''condition'', JObject
                [(''projects'', JArray [JObject [(''project_id'', JString collection)]]),
                 (''action_types'', opt_strings actionTypes)]),
             (''pagination_info'', pagination)])
      in (post ''https://avax.api.hyperspace.xyz/rest/get-collection-activity'' API_KEY body)
           \<lparr>maxBodyLength := True\<rparr>)"

definition getCollectionActivity ::
  "world \<Rightarrow> string \<Rightarrow> string list option \<Rightarrow> jsval \<Rightarrow> response io" where
  "getCollectionActivity w collection actionTypes pagination =
     request_of w (getCollectionActivity_config collection actionTypes pagination)"

definition getCollectionListings_config :: "string \<Rightarrow> jsval \<Rightarrow> jsval \<Rightarrow> request" where
  "getCollectionListings_config collection orderBy pagination =
     (let condition = JObject
            [(''condition'', JObject
                [(''project_ids'', JArray [JObject [(''project_id'', JString collection)]]),
                 (''listing_type'', JString ''NORMAL'')]),
             (''order_by'', orderBy),
             (''pagination_info'', pagination)];
          body = JSON_stringify condition
      in post ''https://avax.api.hyperspace.xyz/rest/get-collection-view'' API_KEY body)"

definition getCollectionListings ::
  "world \<Rightarrow> string \<Rightarrow> jsval \<Rightarrow> jsval \<Rightarrow> response io" where
  "getCollectionListings w collection orderBy pagination =
     request_of w (getCollectionListings_config collection orderBy pagination)"

definition getUserActivity_config ::
  "string \<Rightarrow> string list option \<Rightarrow> jsval \<Rightarrow> request" where
  "getUserActivity_config walletAddress actionTypes pagination =
     (let body = JSON_stringify (JObject
            [(''condition'', JObject
                [(''user_address'', JString walletAddress),
                 (''action_types'', opt_strings actionTypes)]),
             (''pagination_info'', pagination)])
      in (post ''https://avax.api.hyperspace.xyz/rest/get-user-activity'' API_KEY body)
           \<lparr>maxBodyLength := True\<rparr>)"

definition getUserActivity ::
  "world \<Rightarrow> string \<Rightarrow> string list option \<Rightarrow> jsval \<Rightarrow> response io" where
  "getUserActivity w walletAddress actionTypes pagination =
     request_of w (getUserActivity_config walletAddress actionTypes pagination)"

definition getCollectionStats_config :: "string option \<Rightarrow> jsval \<Rightarrow> jsval \<Rightarrow> request" where
  "getCollectionStats_config collection orderBy pagination =
     (let condition =
            (if truthy (opt_string collection)
             then JObject
               [(''condition'', JObject [(''project_ids'', JArray [opt_string collection])]),
                (''order_by'', orderBy),
                (''pagination_info'', pagination)]
             else JObject
               [(''order_by'', orderBy),
                (''pagination_info'', pagination)]);
          body = JSON_stringify condition
      in post ''https://avax.api.hyperspace.xyz/rest/get-project-stats'' API_KEY body)"

definition getCollectionStats ::
  "world \<Rightarrow> string option \<Rightarrow> jsval \<Rightarrow> jsval \<Rightarrow> response io" where
  "getCollectionStats w collection orderBy pagination =
     request_of w (getCollectionStats_config collection orderBy pagination)"

text \<open>Reading a request: a header, and the members of a JSON object.\<close>

definition header :: "request \<Rightarrow> string \<Rightarrow> string option" where
  "header r name = map_of (headers r) name"

definition member :: "jsval \<Rightarrow> string \<Rightarrow> jsval option" where
  "member v k = (case v of JObject fs \<Rightarrow> map_of fs k | _ \<Rightarrow> None)"

definition keys :: "jsval \<Rightarrow> string list" where
  "keys v = (case v of JObject fs \<Rightarrow> map fst fs | _ \<Rightarrow> [])"

section \<open>Vocabulary of the properties\<close>

text \<open>The trace and the outcome of an operation started on the empty trace.\<close>

definition trace_of :: "'a io \<Rightarrow> event list" where
  "trace_of m = fst (run m)"

definition outcome :: "'a io \<Rightarrow> js_error + 'a" where
  "outcome m = snd (run m)"

text \<open>The kinds of external call the properties speak about.\<close>

fun is_approval_query :: "event \<Rightarrow> bool" where
  "is_approval_query (Call_getERC721ApprovalStatus owner c) = True"
| "is_approval_query (Call_getWavaxApprovalStatus owner b) = True"
| "is_approval_query ev = False"

fun is_approval_tx :: "event \<Rightarrow> bool" where
  "is_approval_tx (Call_approveErc721 c) = True"
| "is_approval_tx Call_approveWavax = True"
| "is_approval_tx ev = False"

fun is_broadcast :: "event \<Rightarrow> bool" where
  "is_broadcast (Call_handleSignAndExecute t) = True"
| "is_broadcast ev = False"

fun is_http :: "event \<Rightarrow> bool" where
  "is_http (Call_axios_request r) = True"
| "is_http ev = False"


text \<open>
  The result \<^verbatim>\<open>{ digest: null, errors: v }\<close> for a value \<open>v\<close>, and for a string \<open>msg\<close>.
\<close>

definition failed_with :: "jsval \<Rightarrow> trade_result" where
  "failed_with v = \<lparr>digest = None, errors = v, tokensPurchased = None\<rparr>"

definition failed :: "string \<Rightarrow> trade_result" where
  "failed msg = failed_with (JString msg)"

text \<open>
  How the \<^verbatim>\<open>catch\<close> block completes for the caught value \<open>e\<close>: with the result that carries
  \<^verbatim>\<open>e.message\<close>, or with the exception thrown by reading it.
\<close>

definition catch_result :: "js_error \<Rightarrow> js_error + trade_result" where
  "catch_result e =
     (case error_message e of Inl e' \<Rightarrow> Inl e' | Inr v \<Rightarrow> Inr (failed_with v))"

text \<open>
  The remote build call answered with a usable payload \<open>b\<close> under \<open>field\<close>: the test
  \<^verbatim>\<open>res.data?.length && res.data[0].<field>\<close> evaluates to the truthy value \<open>b\<close>.
\<close>

definition usable_payload :: "response \<Rightarrow> string \<Rightarrow> jsval \<Rightarrow> bool" where
  "usable_payload res field b =
     (first_element_field (res_data res) field = Inr b \<and> truthy b)"

text \<open>
  The number a decimal integer string denotes, digit by digit with its power of ten;
  this is the arithmetic the payment is compared with.
\<close>

definition is_decimal :: "string \<Rightarrow> bool" where
  "is_decimal s = (s \<noteq> [] \<and> list_all is_digit s)"

definition digit_of :: "char \<Rightarrow> int" where
  "digit_of c = int (length (takeWhile (\<lambda>d. d \<noteq> c) ''0123456789''))"

fun decimal_value :: "string \<Rightarrow> int" where
  "decimal_value [] = 0"
| "decimal_value (c # cs) = digit_of c * 10 ^ length cs + decimal_value cs"

text \<open>A fee entry with the given amount string.\<close>

definition has_amount :: "jsval \<Rightarrow> string \<Rightarrow> bool" where
  "has_amount fee a = (js_get fee ''amount'' = Inr (JString a) \<and> is_decimal a)"

subsection \<open>Sample data\<close>

definition sdk0 :: MPSDK where
  "sdk0 = constructor ''key-123'' ''0xWALLET'' ''https://rpc.example''"

definition receipt_ok :: receipt where
  "receipt_ok = \<lparr>rc_status = Some 1, transactionHash = Some ''0xHASH''\<rparr>"

definition receipt_reverted :: receipt where
  "receipt_reverted = \<lparr>rc_status = Some 0, transactionHash = Some ''0xHASH''\<rparr>"

text \<open>
  The text \<^verbatim>\<open>{"maker":"0xWALLET"}\<close> of a signed order (\<open>CHR 0x22\<close> is the double quote), and the
  object it parses to.
\<close>

definition signed_order_text :: string where
  "signed_order_text =
     ''{'' @ [CHR 0x22] @ ''maker'' @ [CHR 0x22] @ '':'' @ [CHR 0x22] @ ''0xWALLET'' @
     [CHR 0x22] @ ''}''"

definition order0 :: jsval where
  "order0 = JObject [(''maker'', JString ''0xWALLET'')]"

definition validation0 :: response where
  "validation0 = \<lparr>res_status = 200, res_data = JObject [(''valid'', JBool True)]\<rparr>"

definition build_response :: response where
  "build_response =
     \<lparr>res_status = 200,
      res_data = JArray [JObject [(''byte_string'', JString ''0xBYTES''),
                                  (''metadata'', JString ''typed-data'')]]\<rparr>"





text \<open>
  A world where everything succeeds: approvals are in place, the remote service answers
  the validation endpoint with \<open>validation0\<close> and every build endpoint with
  \<open>build_response\<close>, signing yields the text \<open>signed_order_text\<close>, which \<^verbatim>\<open>JSON.parse\<close> reads
  as \<open>order0\<close>, and transactions are mined. The signer produces no other text, so
  \<^verbatim>\<open>JSON.parse\<close> is never applied elsewhere; it is set to a syntax error there.
\<close>

definition world_ok :: world where
  "world_ok =
     \<lparr>getWavaxBalance = (\<lambda>owner. Inr 5000),
      getWavaxApprovalStatus = (\<lambda>owner balance. Inr True),
      approveWavax = Inr receipt_ok,
      getERC721ApprovalStatus = (\<lambda>owner c. Inr True),
      approveErc721 = (\<lambda>c. Inr receipt_ok),
      axios_request = (\<lambda>r. if url r = ''https://avax.api.hyperspace.xyz/rest/validate-signature''
                            then Inr validation0 else Inr build_response),
      handleSignTransaction = (\<lambda>orderData. Inr signed_order_text),
      handleSignAndExecute = (\<lambda>t. Inr receipt_ok),
      JSON_parse = (\<lambda>s. if s = signed_order_text then Inr order0
                         else Inl (SyntaxError ''Unexpected token in JSON''))\<rparr>"

text \<open>The listing of the specification's example: amount 1000 with fees 50 and 25.\<close>

definition listing0 :: jsval where
  "listing0 =
     JObject [(''event_log'', JObject
       [(''erc20TokenAmount'', JString ''1000''),
        (''fees'', JArray [JObject [(''amount'', JString ''50'')],
                           JObject [(''amount'', JString ''25'')]])])]"

definition listing_no_fees :: jsval where
  "listing_no_fees =
     JObject [(''event_log'', JObject
       [(''erc20TokenAmount'', JString ''1000''), (''fees'', JArray [])])]"

text \<open>
  What the approval-status check of an operation reports: for a bid the WAVAX allowance
  against the balance read just before, for a listing and for accepting a bid the
  operator approval of the collection.
\<close>

definition wavax_status :: "world \<Rightarrow> MPSDK \<Rightarrow> js_error + bool" where
  "wavax_status w sdk =
     bind_result (getWavaxBalance w (wallet sdk))
       (\<lambda>balance. getWavaxApprovalStatus w (wallet sdk) balance)"

definition erc721_status :: "world \<Rightarrow> MPSDK \<Rightarrow> string \<Rightarrow> js_error + bool" where
  "erc721_status w sdk contractAddress = getERC721ApprovalStatus w (wallet sdk) contractAddress"

text \<open>The part of a trace from its first HTTP request on.\<close>

definition from_first_http :: "event list \<Rightarrow> event list" where
  "from_first_http tr = dropWhile (\<lambda>ev. \<not> is_http ev) tr"

text \<open>
  The approval stage of an operation completes without an exception: the status check
  answers, and the approval transaction it may trigger is mined.
\<close>

definition erc721_approval_passes :: "world \<Rightarrow> MPSDK \<Rightarrow> string \<Rightarrow> bool" where
  "erc721_approval_passes w sdk contractAddress =
     (case getERC721ApprovalStatus w (wallet sdk) contractAddress of
        Inl e \<Rightarrow> False
      | Inr approved \<Rightarrow>
          approved \<or> (case approveErc721 w contractAddress of Inl e \<Rightarrow> False | Inr rc \<Rightarrow> True))"


section \<open>Reasoning about computations\<close>

lemma await_call [simp]:
  "await (call ev r) f t = (case r of Inl e \<Rightarrow> (t @ [ev], Inl e) | Inr x \<Rightarrow> f x (t @ [ev]))"
  by (simp add: await_def call_def split: sum.splits)

lemma await_lift [simp]:
  "await (lift r) f t = (case r of Inl e \<Rightarrow> (t, Inl e) | Inr x \<Rightarrow> f x t)"
  by (simp add: await_def lift_def split: sum.splits)

lemma await_return_io [simp]: "await (return_io x) f t = f x t"
  by (simp add: await_def return_io_def)

lemma await_console_log [simp]: "await (console_log s) f t = f () (t @ [Console_log s])"
  by (simp add: console_log_def)

lemma await_await [simp]: "await (await m f) g t = await m (\<lambda>x. await (f x) g) t"
  by (simp add: await_def split: prod.splits sum.splits)

lemma await_if [simp]:
  "await (if b then m else n) f t = (if b then await m f t else await n f t)"
  by simp

lemma call_apply [simp]: "call ev r t = (t @ [ev], r)"
  by (simp add: call_def)

lemma console_log_apply [simp]: "console_log s t = (t @ [Console_log s], Inr ())"
  by (simp add: console_log_def)

lemma return_io_apply [simp]: "return_io x t = (t, Inr x)"
  by (simp add: return_io_def)

lemma catch_error_apply [simp]:
  "catch_error e t = (t @ [Console_log_error e], catch_result e)"
  by (simp add: catch_error_def catch_result_def failed_with_def split: sum.splits)

lemma catch_result_Error [simp]:
  "catch_result (Error msg) = Inr (failed msg)"
  "catch_result (TypeError msg) = Inr (failed msg)"
  "catch_result (SyntaxError msg) = Inr (failed msg)"
  by (simp_all add: catch_result_def failed_def)

lemma catch_result_Thrown:
  "catch_result (Thrown v) =
     (case js_get v ''message'' of Inl e' \<Rightarrow> Inl e' | Inr x \<Rightarrow> Inr (failed_with x))"
  by (simp add: catch_result_def)

text \<open>Reading the message throws for \<^verbatim>\<open>null\<close> and \<^verbatim>\<open>undefined\<close> only.\<close>

lemma catch_result_throws:
  "catch_result e = Inl e' \<Longrightarrow> e = Thrown JNull \<or> e = Thrown JUndefined"
proof (cases e)
  case (Thrown v)
  assume "catch_result e = Inl e'"
  then show ?thesis
    using Thrown by (cases v) (simp_all add: catch_result_Thrown)
qed simp_all

text \<open>
  An operation that is one \<^verbatim>\<open>try\<close> block with this \<^verbatim>\<open>catch\<close> rejects only when the caught
  value is \<^verbatim>\<open>null\<close> or \<^verbatim>\<open>undefined\<close>.
\<close>

lemma try_catch_rejects:
  assumes "snd (try_catch m catch_error t) = Inl e'"
  shows "Console_log_error (Thrown JNull) \<in> set (fst (try_catch m catch_error t)) \<or>
         Console_log_error (Thrown JUndefined) \<in> set (fst (try_catch m catch_error t))"
proof (cases "m t")
  case (Pair t' r)
  show ?thesis
  proof (cases r)
    case (Inl e)
    then have "catch_result e = Inl e'"
      using assms Pair by (simp add: try_catch_def)
    then have "e = Thrown JNull \<or> e = Thrown JUndefined"
      by (rule catch_result_throws)
    then show ?thesis
      using Pair Inl by (auto simp: try_catch_def)
  next
    case (Inr x)
    then show ?thesis
      using assms Pair by (simp add: try_catch_def)
  qed
qed

text \<open>
  A build result that is an array whose first element is an object with a truthy
  \<open>field\<close> passes the test of the operations.
\<close>

lemma nonempty_length_truthy [simp]: "1 + int n \<noteq> 0"
  by simp

lemma usable_payload_shape:
  "res_data res = JArray (JObject fs # rest) \<Longrightarrow> map_of fs field = Some b \<Longrightarrow> truthy b \<Longrightarrow>
   usable_payload res field b"
  by (simp add: usable_payload_def first_element_field_def js_get_opt_def array_index_def
      bind_result_def)

lemma validateSignature_apply [simp]:
  "validateSignature w sdk obj t =
     (t @ [Call_axios_request (validateSignature_config sdk obj)],
      axios_request w (validateSignature_config sdk obj))"
  by (simp add: validateSignature_def Let_def)

lemma await_validateSignature [simp]:
  "await (validateSignature w sdk obj) f t =
     (case axios_request w (validateSignature_config sdk obj) of
        Inl e \<Rightarrow> (t @ [Call_axios_request (validateSignature_config sdk obj)], Inl e)
      | Inr x \<Rightarrow> f x (t @ [Call_axios_request (validateSignature_config sdk obj)]))"
  by (simp add: validateSignature_def Let_def)

lemma bind_result_simps [simp]:
  "bind_result (Inl e) f = Inl e"
  "bind_result (Inr x) f = f x"
  by (simp_all add: bind_result_def)



text \<open>
  When the test on the build response is truthy, the payload read next is the value
  the test produced.
\<close>

lemma usable_payload_read:
  "usable_payload res field b \<Longrightarrow>
   bind_result (js_get (res_data res) ''0'') (\<lambda>d0. js_get d0 field) = Inr b"
  by (auto simp: usable_payload_def first_element_field_def bind_result_def
      split: sum.splits if_splits)

lemmas op_defs =
  trace_of_def outcome_def run_def try_catch_def Let_def

section \<open>Error normalisation of the broadcasting operations\<close>

text \<open>
  Whatever value reaches the \<^verbatim>\<open>catch\<close> block is logged, and the operation completes as
  the \<^verbatim>\<open>catch\<close> block does for it.
\<close>

lemma buyNft_caught:
  "Console_log_error e \<in> set (trace_of (buyNft w sdk c t p m)) \<Longrightarrow>
   outcome (buyNft w sdk c t p m) = catch_result e"
  by (auto simp: op_defs buyNft_def split: sum.splits if_splits)

lemma acceptCollectionBid_caught:
  "Console_log_error e \<in> set (trace_of (acceptCollectionBid w sdk c t p m)) \<Longrightarrow>
   outcome (acceptCollectionBid w sdk c t p m) = catch_result e"
  by (auto simp: op_defs acceptCollectionBid_def split: sum.splits if_splits)

lemma delistNFT_caught:
  "Console_log_error e \<in> set (trace_of (delistNFT w sdk c t p m)) \<Longrightarrow>
   outcome (delistNFT w sdk c t p m) = catch_result e"
  by (auto simp: op_defs delistNFT_def split: sum.splits if_splits)

lemma cancelCollectionBid_caught:
  "Console_log_error e \<in> set (trace_of (cancelCollectionBid w sdk p m)) \<Longrightarrow>
   outcome (cancelCollectionBid w sdk p m) = catch_result e"
  by (auto simp: op_defs cancelCollectionBid_def split: sum.splits if_splits)

text \<open>
  An exception leaves the operation only from the \<^verbatim>\<open>catch\<close> block itself, when the caught
  value is \<^verbatim>\<open>null\<close> or \<^verbatim>\<open>undefined\<close>.
\<close>

lemma buyNft_rejects:
  "outcome (buyNft w sdk c t p m) = Inl e' \<Longrightarrow>
   Console_log_error (Thrown JNull) \<in> set (trace_of (buyNft w sdk c t p m)) \<or>
   Console_log_error (Thrown JUndefined) \<in> set (trace_of (buyNft w sdk c t p m))"
  unfolding outcome_def trace_of_def run_def buyNft_def by (rule try_catch_rejects)

lemma acceptCollectionBid_rejects:
  "outcome (acceptCollectionBid w sdk c t p m) = Inl e' \<Longrightarrow>
   Console_log_error (Thrown JNull) \<in> set (trace_of (acceptCollectionBid w sdk c t p m)) \<or>
   Console_log_error (Thrown JUndefined) \<in> set (trace_of (acceptCollectionBid w sdk c t p m))"
  unfolding outcome_def trace_of_def run_def acceptCollectionBid_def Let_def
  by (rule try_catch_rejects)

lemma delistNFT_rejects:
  "outcome (delistNFT w sdk c t p m) = Inl e' \<Longrightarrow>
   Console_log_error (Thrown JNull) \<in> set (trace_of (delistNFT w sdk c t p m)) \<or>
   Console_log_error (Thrown JUndefined) \<in> set (trace_of (delistNFT w sdk c t p m))"
  unfolding outcome_def trace_of_def run_def delistNFT_def by (rule try_catch_rejects)

lemma cancelCollectionBid_rejects:
  "outcome (cancelCollectionBid w sdk p m) = Inl e' \<Longrightarrow>
   Console_log_error (Thrown JNull) \<in> set (trace_of (cancelCollectionBid w sdk p m)) \<or>
   Console_log_error (Thrown JUndefined) \<in> set (trace_of (cancelCollectionBid w sdk p m))"
  unfolding outcome_def trace_of_def run_def cancelCollectionBid_def
  by (rule try_catch_rejects)

text \<open>The remote build call fails.\<close>

lemma buyNft_build_failure:
  "axios_request w (buyNft_requestConfig sdk c t p m) = Inl e \<Longrightarrow>
   outcome (buyNft w sdk c t p m) = catch_result e"
  by (simp add: op_defs buyNft_def)

lemma acceptCollectionBid_build_failure:
  "erc721_approval_passes w sdk c \<Longrightarrow>
   axios_request w (acceptCollectionBid_requestConfig sdk c t p m) = Inl e \<Longrightarrow>
   outcome (acceptCollectionBid w sdk c t p m) = catch_result e"
  by (auto simp: op_defs acceptCollectionBid_def erc721_approval_passes_def
      split: sum.splits if_splits)

lemma delistNFT_build_failure:
  "axios_request w (delistNFT_requestConfig sdk c t p m) = Inl e \<Longrightarrow>
   outcome (delistNFT w sdk c t p m) = catch_result e"
  by (simp add: op_defs delistNFT_def)

lemma cancelCollectionBid_build_failure:
  "axios_request w (cancelCollectionBid_requestConfig sdk p m) = Inl e \<Longrightarrow>
   outcome (cancelCollectionBid w sdk p m) = catch_result e"
  by (simp add: op_defs cancelCollectionBid_def)

text \<open>Signing or broadcasting fails after a successful build call.\<close>

lemma buyNft_sign_failure:
  "axios_request w (buyNft_requestConfig sdk c t p m) = Inr res \<Longrightarrow>
   totalAmountToPay m = Inr v \<Longrightarrow>
   usable_payload res ''byte_string'' b \<Longrightarrow>
   handleSignAndExecute w \<lparr>tx_data = b, tx_value = Some v\<rparr> = Inl e \<Longrightarrow>
   outcome (buyNft w sdk c t p m) = catch_result e"
  using usable_payload_read[of res "''byte_string''" b]
  by (simp add: op_defs buyNft_def usable_payload_def)

lemma acceptCollectionBid_sign_failure:
  "erc721_approval_passes w sdk c \<Longrightarrow>
   axios_request w (acceptCollectionBid_requestConfig sdk c t p m) = Inr res \<Longrightarrow>
   usable_payload res ''byte_string'' b \<Longrightarrow>
   handleSignAndExecute w \<lparr>tx_data = b, tx_value = None\<rparr> = Inl e \<Longrightarrow>
   outcome (acceptCollectionBid w sdk c t p m) = catch_result e"
  using usable_payload_read[of res "''byte_string''" b]
  by (auto simp: op_defs acceptCollectionBid_def usable_payload_def erc721_approval_passes_def
      split: sum.splits if_splits)

lemma delistNFT_sign_failure:
  "axios_request w (delistNFT_requestConfig sdk c t p m) = Inr res \<Longrightarrow>
   usable_payload res ''byte_string'' b \<Longrightarrow>
   handleSignAndExecute w \<lparr>tx_data = b, tx_value = None\<rparr> = Inl e \<Longrightarrow>
   outcome (delistNFT w sdk c t p m) = catch_result e"
  using usable_payload_read[of res "''byte_string''" b]
  by (simp add: op_defs delistNFT_def usable_payload_def)

lemma cancelCollectionBid_sign_failure:
  "axios_request w (cancelCollectionBid_requestConfig sdk p m) = Inr res \<Longrightarrow>
   usable_payload res ''byte_string'' b \<Longrightarrow>
   handleSignAndExecute w \<lparr>tx_data = b, tx_value = None\<rparr> = Inl e \<Longrightarrow>
   outcome (cancelCollectionBid w sdk p m) = catch_result e"
  using usable_payload_read[of res "''byte_string''" b]
  by (simp add: op_defs cancelCollectionBid_def usable_payload_def)

text \<open>The same, with the build result given by its shape.\<close>

lemma buyNft_sign_failure_shape:
  "axios_request w (buyNft_requestConfig sdk c t p m) = Inr res \<Longrightarrow>
   totalAmountToPay m = Inr v \<Longrightarrow>
   res_data res = JArray (JObject fs # rest) \<Longrightarrow> map_of fs ''byte_string'' = Some b \<Longrightarrow>
   truthy b \<Longrightarrow>
   handleSignAndExecute w \<lparr>tx_data = b, tx_value = Some v\<rparr> = Inl e \<Longrightarrow>
   outcome (buyNft w sdk c t p m) = catch_result e"
  by (rule buyNft_sign_failure[OF _ _ usable_payload_shape])

lemma acceptCollectionBid_sign_failure_shape:
  "erc721_approval_passes w sdk c \<Longrightarrow>
   axios_request w (acceptCollectionBid_requestConfig sdk c t p m) = Inr res \<Longrightarrow>
   res_data res = JArray (JObject fs # rest) \<Longrightarrow> map_of fs ''byte_string'' = Some b \<Longrightarrow>
   truthy b \<Longrightarrow>
   handleSignAndExecute w \<lparr>tx_data = b, tx_value = None\<rparr> = Inl e \<Longrightarrow>
   outcome (acceptCollectionBid w sdk c t p m) = catch_result e"
  by (rule acceptCollectionBid_sign_failure[OF _ _ usable_payload_shape])

lemma delistNFT_sign_failure_shape:
  "axios_request w (delistNFT_requestConfig sdk c t p m) = Inr res \<Longrightarrow>
   res_data res = JArray (JObject fs # rest) \<Longrightarrow> map_of fs ''byte_string'' = Some b \<Longrightarrow>
   truthy b \<Longrightarrow>
   handleSignAndExecute w \<lparr>tx_data = b, tx_value = None\<rparr> = Inl e \<Longrightarrow>
   outcome (delistNFT w sdk c t p m) = catch_result e"
  by (rule delistNFT_sign_failure[OF _ usable_payload_shape])

lemma cancelCollectionBid_sign_failure_shape:
  "axios_request w (cancelCollectionBid_requestConfig sdk p m) = Inr res \<Longrightarrow>
   res_data res = JArray (JObject fs # rest) \<Longrightarrow> map_of fs ''byte_string'' = Some b \<Longrightarrow>
   truthy b \<Longrightarrow>
   handleSignAndExecute w \<lparr>tx_data = b, tx_value = None\<rparr> = Inl e \<Longrightarrow>
   outcome (cancelCollectionBid w sdk p m) = catch_result e"
  by (rule cancelCollectionBid_sign_failure[OF _ usable_payload_shape])

text \<open>What the \<^verbatim>\<open>catch\<close> block yields for a value that is not an \<^verbatim>\<open>Error\<close> object.\<close>

lemma catch_result_value:
  "tv \<noteq> JUndefined \<Longrightarrow> tv \<noteq> JNull \<Longrightarrow>
   \<exists>x. js_get tv ''message'' = Inr x \<and> catch_result (Thrown tv) = Inr (failed_with x)"
  by (cases tv) (simp_all add: catch_result_Thrown)

lemma catch_result_nullish:
  "\<exists>e'. catch_result (Thrown JNull) = Inl e'"
  "\<exists>e'. catch_result (Thrown JUndefined) = Inl e'"
  by (simp_all add: catch_result_Thrown)

text \<open>Facts about the sample data.\<close>

lemma build_response_byte_string:
  "usable_payload build_response ''byte_string'' (JString ''0xBYTES'')"
  by (simp add: usable_payload_def build_response_def first_element_field_def js_get_opt_def
      bind_result_def array_index_def)

lemma build_response_metadata:
  "usable_payload build_response ''metadata'' (JString ''typed-data'')"
  by (simp add: usable_payload_def build_response_def first_element_field_def js_get_opt_def
      bind_result_def array_index_def)

lemma totalAmountToPay_listing0: "totalAmountToPay listing0 = Inr 1075"
  by code_simp

lemma world_ok_simps [simp]:
  "getWavaxBalance world_ok owner = Inr 5000"
  "getWavaxApprovalStatus world_ok owner bal = Inr True"
  "approveWavax world_ok = Inr receipt_ok"
  "getERC721ApprovalStatus world_ok owner c = Inr True"
  "approveErc721 world_ok c = Inr receipt_ok"
  "handleSignTransaction world_ok d = Inr signed_order_text"
  "handleSignAndExecute world_ok t = Inr receipt_ok"
  "JSON_parse world_ok signed_order_text = Inr order0"
  by (simp_all add: world_ok_def)

lemma world_ok_axios:
  "axios_request world_ok r =
     (if url r = ''https://avax.api.hyperspace.xyz/rest/validate-signature''
      then Inr validation0 else Inr build_response)"
  by (simp add: world_ok_def)

lemma config_urls [simp]:
  "url (validateSignature_config sdk obj) =
     ''https://avax.api.hyperspace.xyz/rest/validate-signature''"
  "url (createCollectionBid_requestConfig sdk c n) =
     ''https://avax.api.hyperspace.xyz/rest/create-collection-bid-tx''"
  "url (listNFT_requestConfig sdk c t p) =
     ''https://avax.api.hyperspace.xyz/rest/create-list-tx''"
  "url (buyNft_requestConfig sdk c t p m) =
     ''https://avax.api.hyperspace.xyz/rest/create-buy-tx''"
  "url (acceptCollectionBid_requestConfig sdk c t p m) =
     ''https://avax.api.hyperspace.xyz/rest/create-accept-collection-bid-tx''"
  "url (delistNFT_requestConfig sdk c t p m) =
     ''https://avax.api.hyperspace.xyz/rest/create-delist-tx''"
  "url (cancelCollectionBid_requestConfig sdk p m) =
     ''https://avax.api.hyperspace.xyz/rest/create-cancel-collection-bid-tx''"
  by (simp_all add: validateSignature_config_def createCollectionBid_requestConfig_def
      listNFT_requestConfig_def buyNft_requestConfig_def acceptCollectionBid_requestConfig_def
      delistNFT_requestConfig_def cancelCollectionBid_requestConfig_def post_def Let_def)

lemma world_ok_build [simp]:
  "axios_request world_ok (createCollectionBid_requestConfig sdk c n) = Inr build_response"
  "axios_request world_ok (listNFT_requestConfig sdk c t p) = Inr build_response"
  "axios_request world_ok (buyNft_requestConfig sdk c t p m) = Inr build_response"
  "axios_request world_ok (acceptCollectionBid_requestConfig sdk c t p m) = Inr build_response"
  "axios_request world_ok (delistNFT_requestConfig sdk c t p m) = Inr build_response"
  "axios_request world_ok (cancelCollectionBid_requestConfig sdk p m) = Inr build_response"
  "axios_request world_ok (validateSignature_config sdk obj) = Inr validation0"
  by (simp_all add: world_ok_axios)

text \<open>
  C1, amended. In \<open>buyNft\<close>, \<open>acceptCollectionBid\<close>, \<open>delistNFT\<close> and
  \<open>cancelCollectionBid\<close>, every value \<open>e\<close> thrown in the \<^verbatim>\<open>try\<close> block, in particular by the
  remote build call or by signing and broadcasting, is caught and logged, and the
  operation completes as the \<^verbatim>\<open>catch\<close> block does for \<open>e\<close>:
  \<^item> when \<open>e\<close> is an \<^verbatim>\<open>Error\<close> object, with \<^verbatim>\<open>{ digest: null, errors: e.message }\<close>; the
    string is the message as it is, non-empty exactly when the message is;
  \<^item> when \<open>e\<close> is any other value but \<^verbatim>\<open>null\<close> and \<^verbatim>\<open>undefined\<close>, with
    \<^verbatim>\<open>{ digest: null, errors: e.message }\<close> too, where the property read may give
    \<^verbatim>\<open>undefined\<close>;
  \<^item> when \<open>e\<close> is \<^verbatim>\<open>null\<close> or \<^verbatim>\<open>undefined\<close>, reading \<^verbatim>\<open>e.message\<close> throws inside the \<^verbatim>\<open>catch\<close>
    block and the operation rejects.
  An exception escapes to the caller in that last case only.
\<close>

theorem transactional_failure_is_normalized:
  "(Console_log_error e \<in> set (trace_of (buyNft w sdk c t p m)) \<longrightarrow>
      outcome (buyNft w sdk c t p m) = catch_result e) \<and>
   (Console_log_error e \<in> set (trace_of (acceptCollectionBid w sdk c t p m)) \<longrightarrow>
      outcome (acceptCollectionBid w sdk c t p m) = catch_result e) \<and>
   (Console_log_error e \<in> set (trace_of (delistNFT w sdk c t p m)) \<longrightarrow>
      outcome (delistNFT w sdk c t p m) = catch_result e) \<and>
   (Console_log_error e \<in> set (trace_of (cancelCollectionBid w sdk p m)) \<longrightarrow>
      outcome (cancelCollectionBid w sdk p m) = catch_result e) \<and>
   (outcome (buyNft w sdk c t p m) = Inl e' \<longrightarrow>
      Console_log_error (Thrown JNull) \<in> set (trace_of (buyNft w sdk c t p m)) \<or>
      Console_log_error (Thrown JUndefined) \<in> set (trace_of (buyNft w sdk c t p m))) \<and>
   (outcome (acceptCollectionBid w sdk c t p m) = Inl e' \<longrightarrow>
      Console_log_error (Thrown JNull)
        \<in> set (trace_of (acceptCollectionBid w sdk c t p m)) \<or>
      Console_log_error (Thrown JUndefined)
        \<in> set (trace_of (acceptCollectionBid w sdk c t p m))) \<and>
   (outcome (delistNFT w sdk c t p m) = Inl e' \<longrightarrow>
      Console_log_error (Thrown JNull) \<in> set (trace_of (delistNFT w sdk c t p m)) \<or>
      Console_log_error (Thrown JUndefined) \<in> set (trace_of (delistNFT w sdk c t p m))) \<and>
   (outcome (cancelCollectionBid w sdk p m) = Inl e' \<longrightarrow>
      Console_log_error (Thrown JNull) \<in> set (trace_of (cancelCollectionBid w sdk p m)) \<or>
      Console_log_error (Thrown JUndefined)
        \<in> set (trace_of (cancelCollectionBid w sdk p m))) \<and>
   (axios_request w (buyNft_requestConfig sdk c t p m) = Inl e \<longrightarrow>
      outcome (buyNft w sdk c t p m) = catch_result e) \<and>
   (erc721_approval_passes w sdk c \<and>
    axios_request w (acceptCollectionBid_requestConfig sdk c t p m) = Inl e \<longrightarrow>
      outcome (acceptCollectionBid w sdk c t p m) = catch_result e) \<and>
   (axios_request w (delistNFT_requestConfig sdk c t p m) = Inl e \<longrightarrow>
      outcome (delistNFT w sdk c t p m) = catch_result e) \<and>
   (axios_request w (cancelCollectionBid_requestConfig sdk p m) = Inl e \<longrightarrow>
      outcome (cancelCollectionBid w sdk p m) = catch_result e) \<and>
   (axios_request w (buyNft_requestConfig sdk c t p m) = Inr res \<and>
    totalAmountToPay m = Inr v \<and>
    res_data res = JArray (JObject fs # rest) \<and> map_of fs ''byte_string'' = Some b \<and>
    truthy b \<and>
    handleSignAndExecute w \<lparr>tx_data = b, tx_value = Some v\<rparr> = Inl e \<longrightarrow>
      outcome (buyNft w sdk c t p m) = catch_result e) \<and>
   (erc721_approval_passes w sdk c \<and>
    axios_request w (acceptCollectionBid_requestConfig sdk c t p m) = Inr res \<and>
    res_data res = JArray (JObject fs # rest) \<and> map_of fs ''byte_string'' = Some b \<and>
    truthy b \<and>
    handleSignAndExecute w \<lparr>tx_data = b, tx_value = None\<rparr> = Inl e \<longrightarrow>
      outcome (acceptCollectionBid w sdk c t p m) = catch_result e) \<and>
   (axios_request w (delistNFT_requestConfig sdk c t p m) = Inr res \<and>
    res_data res = JArray (JObject fs # rest) \<and> map_of fs ''byte_string'' = Some b \<and>
    truthy b \<and>
    handleSignAndExecute w \<lparr>tx_data = b, tx_value = None\<rparr> = Inl e \<longrightarrow>
      outcome (delistNFT w sdk c t p m) = catch_result e) \<and>
   (axios_request w (cancelCollectionBid_requestConfig sdk p m) = Inr res \<and>
    res_data res = JArray (JObject fs # rest) \<and> map_of fs ''byte_string'' = Some b \<and>
    truthy b \<and>
    handleSignAndExecute w \<lparr>tx_data = b, tx_value = None\<rparr> = Inl e \<longrightarrow>
      outcome (cancelCollectionBid w sdk p m) = catch_result e) \<and>
   catch_result (Error msg) = Inr (failed msg) \<and>
   catch_result (TypeError msg) = Inr (failed msg) \<and>
   catch_result (SyntaxError msg) = Inr (failed msg) \<and>
   (tv \<noteq> JUndefined \<and> tv \<noteq> JNull \<longrightarrow>
      (\<exists>x. js_get tv ''message'' = Inr x \<and>
           catch_result (Thrown tv) = Inr (failed_with x))) \<and>
   (\<exists>e'. catch_result (Thrown JNull) = Inl e') \<and>
   (\<exists>e'. catch_result (Thrown JUndefined) = Inl e')"
  by (intro conjI impI; (elim conjE)?;
      (erule buyNft_caught | erule acceptCollectionBid_caught | erule delistNFT_caught
       | erule cancelCollectionBid_caught
       | erule buyNft_rejects | erule acceptCollectionBid_rejects | erule delistNFT_rejects
       | erule cancelCollectionBid_rejects
       | erule buyNft_build_failure | erule delistNFT_build_failure
       | erule cancelCollectionBid_build_failure
       | (rule acceptCollectionBid_build_failure; assumption)
       | (rule buyNft_sign_failure_shape; assumption)
       | (rule acceptCollectionBid_sign_failure_shape; assumption)
       | (rule delistNFT_sign_failure_shape; assumption)
       | (rule cancelCollectionBid_sign_failure_shape; assumption)
       | (rule catch_result_value; assumption)
       | rule catch_result_nullish
       | simp))

text \<open>
  Witness: a world whose remote service answers every request with a 500, a world whose
  wallet refuses to sign (in both the \<^verbatim>\<open>Error\<close> object is logged by the \<^verbatim>\<open>catch\<close> block), a
  world whose remote call rejects with a string, and one whose remote call rejects with
  \<^verbatim>\<open>null\<close>.
\<close>

theorem transactional_failure_is_normalized_witness:
  "outcome (buyNft
      (world_ok\<lparr>axios_request := \<lambda>r. Inl (Error ''Request failed with status code 500'')\<rparr>)
      sdk0 ''0xAA'' ''7'' 100 listing0)
     = Inr (failed ''Request failed with status code 500'') \<and>
   outcome (delistNFT
      (world_ok\<lparr>axios_request := \<lambda>r. Inl (Error ''Request failed with status code 500'')\<rparr>)
      sdk0 ''0xAA'' ''7'' 100 listing0)
     = Inr (failed ''Request failed with status code 500'') \<and>
   outcome (cancelCollectionBid
      (world_ok\<lparr>axios_request := \<lambda>r. Inl (Error ''Request failed with status code 500'')\<rparr>)
      sdk0 100 listing0)
     = Inr (failed ''Request failed with status code 500'') \<and>
   outcome (acceptCollectionBid
      (world_ok\<lparr>axios_request := \<lambda>r. Inl (Error ''Request failed with status code 500'')\<rparr>)
      sdk0 ''0xAA'' ''7'' 100 listing0)
     = Inr (failed ''Request failed with status code 500'') \<and>
   outcome (buyNft
      (world_ok\<lparr>handleSignAndExecute := \<lambda>t. Inl (Error ''user rejected signing'')\<rparr>)
      sdk0 ''0xAA'' ''7'' 100 listing0)
     = Inr (failed ''user rejected signing'') \<and>
   outcome (acceptCollectionBid
      (world_ok\<lparr>handleSignAndExecute := \<lambda>t. Inl (Error ''user rejected signing'')\<rparr>)
      sdk0 ''0xAA'' ''7'' 100 listing0)
     = Inr (failed ''user rejected signing'') \<and>
   outcome (delistNFT
      (world_ok\<lparr>handleSignAndExecute := \<lambda>t. Inl (Error ''user rejected signing'')\<rparr>)
      sdk0 ''0xAA'' ''7'' 100 listing0)
     = Inr (failed ''user rejected signing'') \<and>
   outcome (cancelCollectionBid
      (world_ok\<lparr>handleSignAndExecute := \<lambda>t. Inl (Error ''user rejected signing'')\<rparr>)
      sdk0 100 listing0)
     = Inr (failed ''user rejected signing'') \<and>
   Console_log_error (Error ''user rejected signing'') \<in> set (trace_of (buyNft
      (world_ok\<lparr>handleSignAndExecute := \<lambda>t. Inl (Error ''user rejected signing'')\<rparr>)
      sdk0 ''0xAA'' ''7'' 100 listing0)) \<and>
   Console_log_error (Error ''Request failed with status code 500'')
     \<in> set (trace_of (acceptCollectionBid
      (world_ok\<lparr>axios_request := \<lambda>r. Inl (Error ''Request failed with status code 500'')\<rparr>)
      sdk0 ''0xAA'' ''7'' 100 listing0)) \<and>
   Console_log_error (Error ''Request failed with status code 500'')
     \<in> set (trace_of (delistNFT
      (world_ok\<lparr>axios_request := \<lambda>r. Inl (Error ''Request failed with status code 500'')\<rparr>)
      sdk0 ''0xAA'' ''7'' 100 listing0)) \<and>
   Console_log_error (Error ''Request failed with status code 500'')
     \<in> set (trace_of (cancelCollectionBid
      (world_ok\<lparr>axios_request := \<lambda>r. Inl (Error ''Request failed with status code 500'')\<rparr>)
      sdk0 100 listing0)) \<and>
   outcome (delistNFT (world_ok\<lparr>axios_request := \<lambda>r. Inl (Thrown (JString ''boom''))\<rparr>)
      sdk0 ''0xAA'' ''7'' 100 listing0)
     = Inr (failed_with JUndefined) \<and>
   outcome (buyNft (world_ok\<lparr>axios_request := \<lambda>r. Inl (Thrown JNull)\<rparr>)
      sdk0 ''0xAA'' ''7'' 100 listing0)
     = Inl (TypeError (''Cannot read properties of null (reading '' @ quote ''message'' @
              '')'')) \<and>
   (Console_log_error (Thrown JNull)
      \<in> set (trace_of (buyNft (world_ok\<lparr>axios_request := \<lambda>r. Inl (Thrown JNull)\<rparr>)
           sdk0 ''0xAA'' ''7'' 100 listing0)) \<or>
    Console_log_error (Thrown JUndefined)
      \<in> set (trace_of (buyNft (world_ok\<lparr>axios_request := \<lambda>r. Inl (Thrown JNull)\<rparr>)
           sdk0 ''0xAA'' ''7'' 100 listing0)))"
proof -
  let ?w500 = "world_ok\<lparr>axios_request := \<lambda>r. Inl (Error ''Request failed with status code 500'')\<rparr>"
  let ?wsign = "world_ok\<lparr>handleSignAndExecute := \<lambda>t. Inl (Error ''user rejected signing'')\<rparr>"
  let ?wstr = "world_ok\<lparr>axios_request := \<lambda>r. Inl (Thrown (JString ''boom''))\<rparr>"
  let ?wnull = "world_ok\<lparr>axios_request := \<lambda>r. Inl (Thrown JNull)\<rparr>"
  have a500: "erc721_approval_passes ?w500 sdk0 ''0xAA''"
    by (simp add: erc721_approval_passes_def)
  have asign: "erc721_approval_passes ?wsign sdk0 ''0xAA''"
    by (simp add: erc721_approval_passes_def)
  note pay = totalAmountToPay_listing0
  have shape:
    "res_data build_response
       = JArray (JObject [(''byte_string'', JString ''0xBYTES''),
                          (''metadata'', JString ''typed-data'')] # [])"
    "map_of [(''byte_string'', JString ''0xBYTES''), (''metadata'', JString ''typed-data'')]
       ''byte_string'' = Some (JString ''0xBYTES'')"
    "truthy (JString ''0xBYTES'')"
    by (simp_all add: build_response_def)
  note T500 = transactional_failure_is_normalized
    [where w = ?w500 and sdk = sdk0 and c = "''0xAA''" and t = "''7''" and p = 100
       and m = listing0 and e = "Error ''Request failed with status code 500''"
       and msg = "''Request failed with status code 500''"]
  note Tsign = transactional_failure_is_normalized
    [where w = ?wsign and sdk = sdk0 and c = "''0xAA''" and t = "''7''" and p = 100
       and m = listing0 and e = "Error ''user rejected signing''"
       and res = build_response and b = "JString ''0xBYTES''" and v = 1075
       and fs = "[(''byte_string'', JString ''0xBYTES''), (''metadata'', JString ''typed-data'')]"
       and rest = "[]" and msg = "''user rejected signing''"]
  note Tstr = transactional_failure_is_normalized
    [where w = ?wstr and sdk = sdk0 and c = "''0xAA''" and t = "''7''" and p = 100
       and m = listing0 and e = "Thrown (JString ''boom'')" and tv = "JString ''boom''"]
  note Tnull = transactional_failure_is_normalized
    [where w = ?wnull and sdk = sdk0 and c = "''0xAA''" and t = "''7''" and p = 100
       and m = listing0 and e = "Thrown JNull"
       and e' = "TypeError (''Cannot read properties of null (reading '' @ quote ''message'' @
                   '')'')"]
  from T500 a500 have
    "outcome (buyNft ?w500 sdk0 ''0xAA'' ''7'' 100 listing0)
       = Inr (failed ''Request failed with status code 500'')"
    "outcome (delistNFT ?w500 sdk0 ''0xAA'' ''7'' 100 listing0)
       = Inr (failed ''Request failed with status code 500'')"
    "outcome (cancelCollectionBid ?w500 sdk0 100 listing0)
       = Inr (failed ''Request failed with status code 500'')"
    "outcome (acceptCollectionBid ?w500 sdk0 ''0xAA'' ''7'' 100 listing0)
       = Inr (failed ''Request failed with status code 500'')"
    by simp_all
  moreover from Tsign asign pay shape have
    "outcome (buyNft ?wsign sdk0 ''0xAA'' ''7'' 100 listing0)
       = Inr (failed ''user rejected signing'')"
    "outcome (acceptCollectionBid ?wsign sdk0 ''0xAA'' ''7'' 100 listing0)
       = Inr (failed ''user rejected signing'')"
    "outcome (delistNFT ?wsign sdk0 ''0xAA'' ''7'' 100 listing0)
       = Inr (failed ''user rejected signing'')"
    "outcome (cancelCollectionBid ?wsign sdk0 100 listing0)
       = Inr (failed ''user rejected signing'')"
    by simp_all
  moreover have
    "Console_log_error (Error ''user rejected signing'')
       \<in> set (trace_of (buyNft ?wsign sdk0 ''0xAA'' ''7'' 100 listing0))"
    using pay build_response_byte_string usable_payload_read[OF build_response_byte_string]
    by (simp add: op_defs buyNft_def usable_payload_def)
  moreover have
    "Console_log_error (Error ''Request failed with status code 500'')
       \<in> set (trace_of (acceptCollectionBid ?w500 sdk0 ''0xAA'' ''7'' 100 listing0))"
    "Console_log_error (Error ''Request failed with status code 500'')
       \<in> set (trace_of (delistNFT ?w500 sdk0 ''0xAA'' ''7'' 100 listing0))"
    "Console_log_error (Error ''Request failed with status code 500'')
       \<in> set (trace_of (cancelCollectionBid ?w500 sdk0 100 listing0))"
    by (simp_all add: op_defs acceptCollectionBid_def delistNFT_def cancelCollectionBid_def)
  moreover from Tstr have
    "outcome (delistNFT ?wstr sdk0 ''0xAA'' ''7'' 100 listing0) = Inr (failed_with JUndefined)"
    by (simp add: catch_result_Thrown array_index_def parse_digits_def digit_val_def
        digit_table_def)
  moreover have n: "outcome (buyNft ?wnull sdk0 ''0xAA'' ''7'' 100 listing0)
       = Inl (TypeError (''Cannot read properties of null (reading '' @ quote ''message'' @
                '')''))"
    using Tnull by (simp add: catch_result_Thrown)
  moreover from Tnull n have
    "Console_log_error (Thrown JNull)
       \<in> set (trace_of (buyNft ?wnull sdk0 ''0xAA'' ''7'' 100 listing0)) \<or>
     Console_log_error (Thrown JUndefined)
       \<in> set (trace_of (buyNft ?wnull sdk0 ''0xAA'' ''7'' 100 listing0))"
    by simp
  ultimately show ?thesis by simp
qed

text \<open>
  C1 as stated fails twice. When the remote build call rejects with an error whose
  message is the empty string, \<open>buyNft\<close> resolves to \<^verbatim>\<open>{ digest: null, errors: "" }\<close>: the
  \<^verbatim>\<open>errors\<close> string is empty. When it rejects with \<^verbatim>\<open>null\<close>, the \<^verbatim>\<open>catch\<close> block throws on
  \<^verbatim>\<open>error.message\<close> and the exception escapes to the caller.
\<close>

theorem empty_message_counterexample:
  "outcome (buyNft (world_ok\<lparr>axios_request := \<lambda>r. Inl (Error [])\<rparr>)
      sdk0 ''0xAA'' ''7'' 100 listing0)
     = Inr \<lparr>digest = None, errors = JString [], tokensPurchased = None\<rparr> \<and>
   outcome (buyNft (world_ok\<lparr>axios_request := \<lambda>r. Inl (Thrown JNull)\<rparr>)
      sdk0 ''0xAA'' ''7'' 100 listing0)
     = Inl (TypeError (''Cannot read properties of null (reading '' @ quote ''message'' @
              '')''))"
  by (simp add: op_defs buyNft_def failed_def failed_with_def catch_result_Thrown)

section \<open>Errors of the approval stage\<close>

lemma createCollectionBid_balance_error:
  "getWavaxBalance w (wallet sdk) = Inl e \<Longrightarrow>
   outcome (createCollectionBid w sdk c n) = Inl e"
  by (simp add: op_defs createCollectionBid_def)

lemma createCollectionBid_status_error:
  "getWavaxBalance w (wallet sdk) = Inr bal \<Longrightarrow>
   getWavaxApprovalStatus w (wallet sdk) bal = Inl e \<Longrightarrow>
   outcome (createCollectionBid w sdk c n) = Inl e"
  by (simp add: op_defs createCollectionBid_def)

lemma createCollectionBid_approve_error:
  "getWavaxBalance w (wallet sdk) = Inr bal \<Longrightarrow>
   getWavaxApprovalStatus w (wallet sdk) bal = Inr False \<Longrightarrow>
   approveWavax w = Inl e \<Longrightarrow>
   outcome (createCollectionBid w sdk c n) = Inl e"
  by (simp add: op_defs createCollectionBid_def)

lemma listNFT_status_error:
  "getERC721ApprovalStatus w (wallet sdk) c = Inl e \<Longrightarrow>
   outcome (listNFT w sdk c t p) = Inl e"
  by (simp add: op_defs listNFT_def)

lemma listNFT_approve_error:
  "getERC721ApprovalStatus w (wallet sdk) c = Inr False \<Longrightarrow>
   approveErc721 w c = Inl e \<Longrightarrow>
   outcome (listNFT w sdk c t p) = Inl e"
  by (simp add: op_defs listNFT_def)

lemma acceptCollectionBid_status_error:
  "getERC721ApprovalStatus w (wallet sdk) c = Inl e \<Longrightarrow>
   outcome (acceptCollectionBid w sdk c t p m) = catch_result e"
  by (simp add: op_defs acceptCollectionBid_def)

lemma acceptCollectionBid_approve_error:
  "getERC721ApprovalStatus w (wallet sdk) c = Inr False \<Longrightarrow>
   approveErc721 w c = Inl e \<Longrightarrow>
   outcome (acceptCollectionBid w sdk c t p m) = catch_result e"
  by (simp add: op_defs acceptCollectionBid_def)

text \<open>
  C2, amended. In \<open>createCollectionBid\<close> and \<open>listNFT\<close> an error thrown by the
  approval-status check (for a bid also by the balance read before it) or by the
  approval transaction rejects the operation with that very error. In
  \<open>acceptCollectionBid\<close> the approval stage stands inside the \<^verbatim>\<open>try\<close> block: the same
  error is caught and the operation completes as the \<^verbatim>\<open>catch\<close> block does for it: for an
  \<^verbatim>\<open>Error\<close> object \<open>e\<close> it resolves to \<^verbatim>\<open>{ digest: null, errors: e.message }\<close>.
\<close>

theorem approval_stage_errors:
  "(getWavaxBalance w (wallet sdk) = Inl e \<longrightarrow>
      outcome (createCollectionBid w sdk c n) = Inl e) \<and>
   (getWavaxBalance w (wallet sdk) = Inr bal \<and>
    getWavaxApprovalStatus w (wallet sdk) bal = Inl e \<longrightarrow>
      outcome (createCollectionBid w sdk c n) = Inl e) \<and>
   (getWavaxBalance w (wallet sdk) = Inr bal \<and>
    getWavaxApprovalStatus w (wallet sdk) bal = Inr False \<and> approveWavax w = Inl e \<longrightarrow>
      outcome (createCollectionBid w sdk c n) = Inl e) \<and>
   (getERC721ApprovalStatus w (wallet sdk) c = Inl e \<longrightarrow>
      outcome (listNFT w sdk c t p) = Inl e) \<and>
   (getERC721ApprovalStatus w (wallet sdk) c = Inr False \<and> approveErc721 w c = Inl e \<longrightarrow>
      outcome (listNFT w sdk c t p) = Inl e) \<and>
   (getERC721ApprovalStatus w (wallet sdk) c = Inl e \<longrightarrow>
      outcome (acceptCollectionBid w sdk c t p m) = catch_result e) \<and>
   (getERC721ApprovalStatus w (wallet sdk) c = Inr False \<and> approveErc721 w c = Inl e \<longrightarrow>
      outcome (acceptCollectionBid w sdk c t p m) = catch_result e) \<and>
   (getERC721ApprovalStatus w (wallet sdk) c = Inl (Error msg) \<longrightarrow>
      outcome (acceptCollectionBid w sdk c t p m) = Inr (failed msg)) \<and>
   (getERC721ApprovalStatus w (wallet sdk) c = Inr False \<and>
    approveErc721 w c = Inl (Error msg) \<longrightarrow>
      outcome (acceptCollectionBid w sdk c t p m) = Inr (failed msg))"
  using acceptCollectionBid_status_error[of w sdk c "Error msg" t p m]
    acceptCollectionBid_approve_error[of w sdk c "Error msg" t p m]
  by (auto intro: createCollectionBid_balance_error createCollectionBid_status_error
      createCollectionBid_approve_error listNFT_status_error listNFT_approve_error
      acceptCollectionBid_status_error acceptCollectionBid_approve_error)

text \<open>
  Witness: the approval-status check fails in one world, the approval transaction in
  another.
\<close>

theorem approval_stage_errors_witness:
  "outcome (createCollectionBid
      (world_ok\<lparr>getWavaxApprovalStatus := \<lambda>owner b. Inl (Error ''rpc down'')\<rparr>)
      sdk0 ''0xAA'' 100) = Inl (Error ''rpc down'') \<and>
   outcome (listNFT
      (world_ok\<lparr>getERC721ApprovalStatus := \<lambda>owner c. Inl (Error ''rpc down'')\<rparr>)
      sdk0 ''0xAA'' ''7'' 100) = Inl (Error ''rpc down'') \<and>
   outcome (acceptCollectionBid
      (world_ok\<lparr>getERC721ApprovalStatus := \<lambda>owner c. Inl (Error ''rpc down'')\<rparr>)
      sdk0 ''0xAA'' ''7'' 100 listing0) = Inr (failed ''rpc down'') \<and>
   outcome (createCollectionBid
      (world_ok\<lparr>getWavaxApprovalStatus := \<lambda>owner b. Inr False,
                 approveWavax := Inl (Error ''out of gas'')\<rparr>)
      sdk0 ''0xAA'' 100) = Inl (Error ''out of gas'') \<and>
   outcome (listNFT
      (world_ok\<lparr>getERC721ApprovalStatus := \<lambda>owner c. Inr False,
                 approveErc721 := \<lambda>c. Inl (Error ''out of gas'')\<rparr>)
      sdk0 ''0xAA'' ''7'' 100) = Inl (Error ''out of gas'') \<and>
   outcome (acceptCollectionBid
      (world_ok\<lparr>getERC721ApprovalStatus := \<lambda>owner c. Inr False,
                 approveErc721 := \<lambda>c. Inl (Error ''out of gas'')\<rparr>)
      sdk0 ''0xAA'' ''7'' 100 listing0) = Inr (failed ''out of gas'') \<and>
   outcome (createCollectionBid
      (world_ok\<lparr>getWavaxBalance := \<lambda>owner. Inl (Error ''rpc down'')\<rparr>)
      sdk0 ''0xAA'' 100) = Inl (Error ''rpc down'')"
proof -
  let ?ws = "world_ok\<lparr>getWavaxApprovalStatus := \<lambda>owner b. Inl (Error ''rpc down'')\<rparr>"
  let ?wn = "world_ok\<lparr>getERC721ApprovalStatus := \<lambda>owner c. Inl (Error ''rpc down'')\<rparr>"
  let ?wa = "world_ok\<lparr>getWavaxApprovalStatus := \<lambda>owner b. Inr False,
                        approveWavax := Inl (Error ''out of gas'')\<rparr>"
  let ?wb = "world_ok\<lparr>getERC721ApprovalStatus := \<lambda>owner c. Inr False,
                        approveErc721 := \<lambda>c. Inl (Error ''out of gas'')\<rparr>"
  have "outcome (createCollectionBid ?ws sdk0 ''0xAA'' 100) = Inl (Error ''rpc down'')"
    using approval_stage_errors
      [where w = ?ws and sdk = sdk0 and c = "''0xAA''" and n = 100 and bal = 5000
         and e = "Error ''rpc down''"]
    by simp
  moreover have
    "outcome (listNFT ?wn sdk0 ''0xAA'' ''7'' 100) = Inl (Error ''rpc down'')"
    "outcome (acceptCollectionBid ?wn sdk0 ''0xAA'' ''7'' 100 listing0) = Inr (failed ''rpc down'')"
    using approval_stage_errors
      [where w = ?wn and sdk = sdk0 and c = "''0xAA''" and t = "''7''" and p = 100
         and m = listing0 and e = "Error ''rpc down''"]
    by simp_all
  moreover have
    "outcome (createCollectionBid ?wa sdk0 ''0xAA'' 100) = Inl (Error ''out of gas'')"
    using approval_stage_errors
      [where w = ?wa and sdk = sdk0 and c = "''0xAA''" and n = 100 and bal = 5000
         and e = "Error ''out of gas''"]
    by simp
  moreover have
    "outcome (listNFT ?wb sdk0 ''0xAA'' ''7'' 100) = Inl (Error ''out of gas'')"
    "outcome (acceptCollectionBid ?wb sdk0 ''0xAA'' ''7'' 100 listing0) = Inr (failed ''out of gas'')"
    using approval_stage_errors
      [where w = ?wb and sdk = sdk0 and c = "''0xAA''" and t = "''7''" and p = 100
         and m = listing0 and e = "Error ''out of gas''"]
    by simp_all
  moreover have
    "outcome (createCollectionBid
        (world_ok\<lparr>getWavaxBalance := \<lambda>owner. Inl (Error ''rpc down'')\<rparr>) sdk0 ''0xAA'' 100)
       = Inl (Error ''rpc down'')"
    using approval_stage_errors
      [where w = "world_ok\<lparr>getWavaxBalance := \<lambda>owner. Inl (Error ''rpc down'')\<rparr>"
         and sdk = sdk0 and c = "''0xAA''" and n = 100 and e = "Error ''rpc down''"]
    by simp
  ultimately show ?thesis by simp
qed

text \<open>
  C2 as stated fails for \<open>acceptCollectionBid\<close>: an error of the approval-status check
  does not reach the caller; the operation resolves to a result object that carries the
  message.
\<close>

theorem acceptCollectionBid_approval_error_counterexample:
  "outcome (acceptCollectionBid
      (world_ok\<lparr>getERC721ApprovalStatus := \<lambda>owner c. Inl (Error ''rpc down'')\<rparr>)
      sdk0 ''0xAA'' ''7'' 100 listing0)
     = Inr \<lparr>digest = None, errors = JString ''rpc down'', tokensPurchased = None\<rparr>"
  by (simp add: op_defs acceptCollectionBid_def failed_def failed_with_def)

section \<open>The receipt of a broadcast transaction\<close>

text \<open>
  \<open>buyNft\<close> and \<open>acceptCollectionBid\<close> report success exactly for a receipt with status 1
  and a hash.
\<close>

lemma buyNft_receipt:
  "axios_request w (buyNft_requestConfig sdk c t p m) = Inr res \<Longrightarrow>
   totalAmountToPay m = Inr v \<Longrightarrow>
   usable_payload res ''byte_string'' b \<Longrightarrow>
   handleSignAndExecute w \<lparr>tx_data = b, tx_value = Some v\<rparr> = Inr rc \<Longrightarrow>
   outcome (buyNft w sdk c t p m) =
     Inr (if rc_status rc = Some 1 \<and> truthy_hash (transactionHash rc)
          then \<lparr>digest = transactionHash rc, errors = JNull, tokensPurchased = None\<rparr>
          else failed ''Failed to sign and execute purchase transaction'')"
  using usable_payload_read[of res "''byte_string''" b]
  by (simp add: op_defs buyNft_def usable_payload_def failed_def failed_with_def)

lemma acceptCollectionBid_receipt:
  "erc721_approval_passes w sdk c \<Longrightarrow>
   axios_request w (acceptCollectionBid_requestConfig sdk c t p m) = Inr res \<Longrightarrow>
   usable_payload res ''byte_string'' b \<Longrightarrow>
   handleSignAndExecute w \<lparr>tx_data = b, tx_value = None\<rparr> = Inr rc \<Longrightarrow>
   outcome (acceptCollectionBid w sdk c t p m) =
     Inr (if rc_status rc = Some 1 \<and> truthy_hash (transactionHash rc)
          then \<lparr>digest = transactionHash rc, errors = JNull, tokensPurchased = None\<rparr>
          else failed ''Failed to sign and execute accept collection bid transaction'')"
  using usable_payload_read[of res "''byte_string''" b]
  by (auto simp: op_defs acceptCollectionBid_def usable_payload_def failed_def failed_with_def
      erc721_approval_passes_def split: sum.splits if_splits)

text \<open>\<open>delistNFT\<close> and \<open>cancelCollectionBid\<close> look at the hash only.\<close>

lemma delistNFT_receipt:
  "axios_request w (delistNFT_requestConfig sdk c t p m) = Inr res \<Longrightarrow>
   usable_payload res ''byte_string'' b \<Longrightarrow>
   handleSignAndExecute w \<lparr>tx_data = b, tx_value = None\<rparr> = Inr rc \<Longrightarrow>
   outcome (delistNFT w sdk c t p m) =
     Inr (if truthy_hash (transactionHash rc)
          then \<lparr>digest = transactionHash rc, errors = JNull, tokensPurchased = None\<rparr>
          else failed ''Failed to sign and execute delist transaction'')"
  using usable_payload_read[of res "''byte_string''" b]
  by (simp add: op_defs delistNFT_def usable_payload_def failed_def failed_with_def)

lemma cancelCollectionBid_receipt:
  "axios_request w (cancelCollectionBid_requestConfig sdk p m) = Inr res \<Longrightarrow>
   usable_payload res ''byte_string'' b \<Longrightarrow>
   handleSignAndExecute w \<lparr>tx_data = b, tx_value = None\<rparr> = Inr rc \<Longrightarrow>
   outcome (cancelCollectionBid w sdk p m) =
     Inr (if truthy_hash (transactionHash rc)
          then \<lparr>digest = transactionHash rc, errors = JNull, tokensPurchased = None\<rparr>
          else failed ''Failed to sign and execute cancel collection bid transaction'')"
  using usable_payload_read[of res "''byte_string''" b]
  by (simp add: op_defs cancelCollectionBid_def usable_payload_def failed_def failed_with_def)

text \<open>
  C3 at its failing input: the build call returns a \<^verbatim>\<open>byte_string\<close> and the receipt of the
  broadcast has status 0 together with a hash (a reverted transaction). \<open>delistNFT\<close> and
  \<open>cancelCollectionBid\<close> resolve to \<^verbatim>\<open>{ digest: <hash>, errors: null }\<close>, while \<open>buyNft\<close>
  and \<open>acceptCollectionBid\<close> resolve to \<^verbatim>\<open>{ digest: null, errors: <message> }\<close> for the
  same receipt.
\<close>

theorem reverted_receipt_reported_as_success:
  "rc_status receipt_reverted = Some 0 \<and>
   outcome (delistNFT (world_ok\<lparr>handleSignAndExecute := \<lambda>t. Inr receipt_reverted\<rparr>)
      sdk0 ''0xAA'' ''7'' 100 listing0)
     = Inr \<lparr>digest = Some ''0xHASH'', errors = JNull, tokensPurchased = None\<rparr> \<and>
   outcome (cancelCollectionBid (world_ok\<lparr>handleSignAndExecute := \<lambda>t. Inr receipt_reverted\<rparr>)
      sdk0 100 listing0)
     = Inr \<lparr>digest = Some ''0xHASH'', errors = JNull, tokensPurchased = None\<rparr> \<and>
   outcome (buyNft (world_ok\<lparr>handleSignAndExecute := \<lambda>t. Inr receipt_reverted\<rparr>)
      sdk0 ''0xAA'' ''7'' 100 listing0)
     = Inr \<lparr>digest = None, errors = JString ''Failed to sign and execute purchase transaction'',
            tokensPurchased = None\<rparr> \<and>
   outcome (acceptCollectionBid
      (world_ok\<lparr>handleSignAndExecute := \<lambda>t. Inr receipt_reverted\<rparr>)
      sdk0 ''0xAA'' ''7'' 100 listing0)
     = Inr \<lparr>digest = None,
            errors = JString ''Failed to sign and execute accept collection bid transaction'',
            tokensPurchased = None\<rparr>"
proof -
  let ?w = "world_ok\<lparr>handleSignAndExecute := \<lambda>t. Inr receipt_reverted\<rparr>"
  note bytes = build_response_byte_string
  have ap: "erc721_approval_passes ?w sdk0 ''0xAA''"
    by (simp add: erc721_approval_passes_def)
  have "outcome (delistNFT ?w sdk0 ''0xAA'' ''7'' 100 listing0)
          = Inr \<lparr>digest = Some ''0xHASH'', errors = JNull, tokensPurchased = None\<rparr>"
    using delistNFT_receipt[where w = ?w and rc = receipt_reverted, OF _ bytes]
    by (simp add: receipt_reverted_def truthy_hash_def)
  moreover have "outcome (cancelCollectionBid ?w sdk0 100 listing0)
          = Inr \<lparr>digest = Some ''0xHASH'', errors = JNull, tokensPurchased = None\<rparr>"
    using cancelCollectionBid_receipt[where w = ?w and rc = receipt_reverted, OF _ bytes]
    by (simp add: receipt_reverted_def truthy_hash_def)
  moreover have "outcome (buyNft ?w sdk0 ''0xAA'' ''7'' 100 listing0)
          = Inr \<lparr>digest = None,
                 errors = JString ''Failed to sign and execute purchase transaction'',
                 tokensPurchased = None\<rparr>"
    using buyNft_receipt[where w = ?w and rc = receipt_reverted,
        OF _ totalAmountToPay_listing0 bytes]
    by (simp add: receipt_reverted_def truthy_hash_def failed_def failed_with_def)
  moreover have "outcome (acceptCollectionBid ?w sdk0 ''0xAA'' ''7'' 100 listing0)
          = Inr \<lparr>digest = None,
                 errors = JString ''Failed to sign and execute accept collection bid transaction'',
                 tokensPurchased = None\<rparr>"
    using acceptCollectionBid_receipt[where w = ?w and rc = receipt_reverted, OF ap _ bytes]
    by (simp add: receipt_reverted_def truthy_hash_def failed_def failed_with_def)
  ultimately show ?thesis by (simp add: receipt_reverted_def)
qed

section \<open>Delisting\<close>

lemma delistNFT_trace_shape:
  "trace_of (delistNFT w sdk c t p m) = xs \<Longrightarrow>
   \<not> list_ex is_approval_query xs \<and> \<not> list_ex is_approval_tx xs \<and>
   take 1 xs = [Call_axios_request (delistNFT_requestConfig sdk c t p m)]"
  by (auto simp: op_defs delistNFT_def split: sum.splits if_splits)

text \<open>
  C5, amended. \<open>delistNFT\<close> makes no approval-status query and submits no approval
  transaction, whatever the world answers: its first external call is the remote build
  call of \<^verbatim>\<open>create-delist-tx\<close>.
\<close>

theorem delistNFT_makes_no_approval_call:
  "\<not> list_ex is_approval_query (trace_of (delistNFT w sdk c t p m)) \<and>
   \<not> list_ex is_approval_tx (trace_of (delistNFT w sdk c t p m)) \<and>
   take 1 (trace_of (delistNFT w sdk c t p m)) =
     [Call_axios_request (delistNFT_requestConfig sdk c t p m)]"
  using delistNFT_trace_shape[OF refl] .

text \<open>
  C5 as stated fails: in a world where the marketplace is not approved for the
  collection, \<open>delistNFT\<close> broadcasts the delist transaction after the build call alone,
  with no approval query and no approval transaction before it.
\<close>

theorem delistNFT_unapproved_counterexample:
  "trace_of (delistNFT (world_ok\<lparr>getERC721ApprovalStatus := \<lambda>owner c. Inr False\<rparr>)
      sdk0 ''0xAA'' ''7'' 100 listing0)
     = [Call_axios_request (delistNFT_requestConfig sdk0 ''0xAA'' ''7'' 100 listing0),
        Call_handleSignAndExecute \<lparr>tx_data = JString ''0xBYTES'', tx_value = None\<rparr>]"
  by (simp add: op_defs delistNFT_def build_response_def first_element_field_def
      js_get_opt_def bind_result_def array_index_def receipt_ok_def truthy_hash_def)

section \<open>The payment of a purchase\<close>

subsection \<open>\<^verbatim>\<open>BigInt\<close> on decimal integer strings\<close>

lemma digit_cases:
  assumes "is_digit c"
  obtains "c = CHR ''0''" | "c = CHR ''1''" | "c = CHR ''2''" | "c = CHR ''3''"
    | "c = CHR ''4''" | "c = CHR ''5''" | "c = CHR ''6''" | "c = CHR ''7''"
    | "c = CHR ''8''" | "c = CHR ''9''"
  using assms by (auto simp: is_digit_def)

lemma digit_val_digit: "is_digit c \<Longrightarrow> digit_val c = Some (nat (digit_of c))"
  by (erule digit_cases) (simp_all add: digit_val_def digit_table_def digit_of_def)

lemma digit_of_range: "is_digit c \<Longrightarrow> 0 \<le> digit_of c \<and> digit_of c < 10"
  by (auto simp: is_digit_def digit_of_def)

lemma digit_not_space: "is_digit c \<Longrightarrow> \<not> is_space c"
  by (auto simp: is_digit_def is_space_def)

lemma digit_not_prefix:
  "is_digit c \<Longrightarrow>
   c \<noteq> CHR ''x'' \<and> c \<noteq> CHR ''X'' \<and> c \<noteq> CHR ''o'' \<and> c \<noteq> CHR ''O'' \<and>
   c \<noteq> CHR ''b'' \<and> c \<noteq> CHR ''B'' \<and> c \<noteq> CHR ''-'' \<and> c \<noteq> CHR ''+''"
  by (auto simp: is_digit_def)

lemma decimal_value_nonneg: "list_all is_digit s \<Longrightarrow> 0 \<le> decimal_value s"
  by (induction s) (auto dest: digit_of_range)

lemma decimal_value_snoc:
  "decimal_value (s @ [c]) = 10 * decimal_value s + digit_of c"
  by (induction s) (auto simp: algebra_simps)

text \<open>
  The left-to-right accumulation of the parser computes the positional value: by
  induction from the right end of the string.
\<close>

lemma parse_fold_decimal:
  "list_all is_digit s \<Longrightarrow>
   foldl (\<lambda>acc c.
            case acc of None \<Rightarrow> None
            | Some a \<Rightarrow> (case digit_val c of None \<Rightarrow> None
                | Some d \<Rightarrow> if d < 10 then Some (10 * a + d) else None))
         (Some 0) s
     = Some (nat (decimal_value s))"
proof (induction s rule: rev_induct)
  case Nil
  show ?case by simp
next
  case (snoc c s)
  then have ds: "list_all is_digit s" and dc: "is_digit c"
    by simp_all
  have r: "0 \<le> digit_of c" "digit_of c < 10"
    using digit_of_range[OF dc] by simp_all
  have n: "0 \<le> decimal_value s"
    by (rule decimal_value_nonneg[OF ds])
  have "nat (10 * decimal_value s + digit_of c) = 10 * nat (decimal_value s) + nat (digit_of c)"
    using n r by (simp add: nat_add_distrib nat_mult_distrib)
  moreover have "nat (digit_of c) < 10"
    using r by simp
  ultimately show ?case
    using snoc.IH[OF ds] digit_val_digit[OF dc]
    by (simp add: decimal_value_snoc)
qed

lemma parse_digits_decimal:
  "is_decimal s \<Longrightarrow> map_option int (parse_digits 10 s) = Some (decimal_value s)"
  using parse_fold_decimal[of s] decimal_value_nonneg[of s]
  by (simp add: is_decimal_def parse_digits_def)

lemma trim_decimal: "is_decimal s \<Longrightarrow> trim s = s"
proof -
  assume d: "is_decimal s"
  then have ne: "s \<noteq> []" and all: "list_all is_digit s"
    by (simp_all add: is_decimal_def)
  have "is_digit (hd s)" "is_digit (last s)"
    using ne all by (simp_all add: list_all_iff)
  then have h: "\<not> is_space (hd s)" and l: "\<not> is_space (last s)"
    by (simp_all add: digit_not_space)
  have 1: "dropWhile is_space s = s"
    using h by (simp add: dropWhile_eq_self_iff)
  have 2: "dropWhile is_space (rev s) = rev s"
    using l by (simp add: dropWhile_eq_self_iff hd_rev)
  show "trim s = s"
    by (simp add: trim_def 1 2)
qed

lemma StringToBigInt_decimal:
  "is_decimal s \<Longrightarrow> StringToBigInt s = Some (decimal_value s)"
proof -
  assume d: "is_decimal s"
  then obtain c cs where s: "s = c # cs" and c: "is_digit c" and cs: "list_all is_digit cs"
    by (cases s) (auto simp: is_decimal_def)
  have hd: "cs \<noteq> [] \<Longrightarrow> is_digit (hd cs)"
    using cs by (cases cs) simp_all
  have p: "c \<noteq> CHR ''-''" "c \<noteq> CHR ''+''"
    using digit_not_prefix[OF c] by simp_all
  have q: "cs \<noteq> [] \<Longrightarrow> hd cs \<notin> {CHR ''x'', CHR ''X''}"
    "cs \<noteq> [] \<Longrightarrow> hd cs \<notin> {CHR ''o'', CHR ''O''}"
    "cs \<noteq> [] \<Longrightarrow> hd cs \<notin> {CHR ''b'', CHR ''B''}"
    using digit_not_prefix[OF hd] by simp_all
  have "StringToBigInt_trimmed (c # cs) = map_option int (parse_digits 10 (c # cs))"
    using p q by (cases "cs = []") simp_all
  then show ?thesis
    using parse_digits_decimal[OF d] trim_decimal[OF d] by (simp add: StringToBigInt_def s)
qed

lemma BigInt_of_string_decimal:
  "is_decimal s \<Longrightarrow> BigInt_of_string s = Inr (decimal_value s)"
  by (simp add: BigInt_of_string_def StringToBigInt_decimal)

subsection \<open>The sum\<close>


lemma map_result_fees:
  "list_all2 has_amount fees amounts \<Longrightarrow>
   map_result (\<lambda>fee. bind_result (js_get fee ''amount'') BigInt) fees
     = Inr (map decimal_value amounts)"
  by (induction rule: list_all2_induct)
     (simp_all add: has_amount_def BigInt_of_string_decimal)

lemma foldl_plus_sum_list: "foldl (\<lambda>a b. a + b) (x::int) xs = x + sum_list xs"
  by (induction xs arbitrary: x) simp_all

lemma totalAmountToPay_sum:
  assumes "js_get metadata ''event_log'' = Inr event_log"
    and "js_get event_log ''erc20TokenAmount'' = Inr (JString amount)"
    and "is_decimal amount"
    and "js_get event_log ''fees'' = Inr (JArray fees)"
    and "list_all2 has_amount fees amounts"
  shows "totalAmountToPay metadata
           = Inr (decimal_value amount + sum_list (map decimal_value amounts))"
  using assms
  by (simp add: totalAmountToPay_def BigInt_of_string_decimal map_result_fees
      foldl_plus_sum_list)

lemma buyNft_broadcast_value:
  assumes "axios_request w (buyNft_requestConfig sdk c t p metadata) = Inr res"
    and "totalAmountToPay metadata = Inr v"
    and "usable_payload res ''byte_string'' b"
  shows "filter is_broadcast (trace_of (buyNft w sdk c t p metadata))
           = [Call_handleSignAndExecute \<lparr>tx_data = b, tx_value = Some v\<rparr>]"
  using assms usable_payload_read[of res "''byte_string''" b]
  by (auto simp: op_defs buyNft_def usable_payload_def split: sum.splits)

text \<open>
  C4. When \<^verbatim>\<open>metadata.event_log.erc20TokenAmount\<close> is a decimal integer string (a
  non-empty string of decimal digits) and \<^verbatim>\<open>metadata.event_log.fees\<close> is a non-empty list
  of entries whose \<^verbatim>\<open>amount\<close> is a decimal integer string, the payment computed by
  \<open>buyNft\<close> is the integer sum of the listed amount and all fee amounts, over the
  unbounded integers; and when the build call returns a \<^verbatim>\<open>byte_string\<close>, the one
  transaction handed to signing carries exactly that sum as its \<^verbatim>\<open>value\<close>.
\<close>

theorem buyNft_value_is_exact_sum:
  assumes "js_get metadata ''event_log'' = Inr event_log"
    and "js_get event_log ''erc20TokenAmount'' = Inr (JString amount)"
    and "is_decimal amount"
    and "js_get event_log ''fees'' = Inr (JArray fees)"
    and "fees \<noteq> []"
    and "list_all2 has_amount fees amounts"
    and "axios_request w (buyNft_requestConfig sdk c t p metadata) = Inr res"
    and "usable_payload res ''byte_string'' b"
  shows "totalAmountToPay metadata
           = Inr (decimal_value amount + sum_list (map decimal_value amounts)) \<and>
         filter is_broadcast (trace_of (buyNft w sdk c t p metadata))
           = [Call_handleSignAndExecute
                \<lparr>tx_data = b,
                 tx_value = Some (decimal_value amount + sum_list (map decimal_value amounts))\<rparr>]"
proof -
  have v: "totalAmountToPay metadata
             = Inr (decimal_value amount + sum_list (map decimal_value amounts))"
    by (rule totalAmountToPay_sum[OF assms(1-4) assms(6)])
  show ?thesis
    using v buyNft_broadcast_value[OF assms(7) v assms(8)] by simp
qed

text \<open>
  Witness, the example of the specification: amount \<^verbatim>\<open>"1000"\<close> with fees \<^verbatim>\<open>"50"\<close> and
  \<^verbatim>\<open>"25"\<close> gives exactly 1075.
\<close>

theorem buyNft_value_is_exact_sum_witness:
  "totalAmountToPay listing0 = Inr 1075 \<and>
   filter is_broadcast (trace_of (buyNft world_ok sdk0 ''0xAA'' ''7'' 100 listing0))
     = [Call_handleSignAndExecute \<lparr>tx_data = JString ''0xBYTES'', tx_value = Some 1075\<rparr>]"
proof -
  let ?el = "JObject [(''erc20TokenAmount'', JString ''1000''),
                      (''fees'', JArray [JObject [(''amount'', JString ''50'')],
                                         JObject [(''amount'', JString ''25'')]])]"
  let ?fees = "[JObject [(''amount'', JString ''50'')], JObject [(''amount'', JString ''25'')]]"
  have 1: "js_get listing0 ''event_log'' = Inr ?el"
    by (simp add: listing0_def)
  have 2: "js_get ?el ''erc20TokenAmount'' = Inr (JString ''1000'')"
    by simp
  have 3: "is_decimal ''1000''"
    by (simp add: is_decimal_def is_digit_def)
  have 4: "js_get ?el ''fees'' = Inr (JArray ?fees)"
    by simp
  have 5: "?fees \<noteq> []"
    by simp
  have 6: "list_all2 has_amount ?fees [''50'', ''25'']"
    by (simp add: has_amount_def is_decimal_def is_digit_def)
  have 7: "axios_request world_ok (buyNft_requestConfig sdk0 ''0xAA'' ''7'' 100 listing0)
             = Inr build_response"
    by simp
  have 8: "decimal_value ''1000'' + sum_list (map decimal_value [''50'', ''25'']) = 1075"
    by (simp add: digit_of_def)
  show ?thesis
    using buyNft_value_is_exact_sum[OF 1 2 3 4 5 6 7 build_response_byte_string]
    unfolding 8 .
qed

section \<open>The requests of the Query Client\<close>

lemmas query_config_defs =
  getUserOwnedNFTs_config_def getCollectionBids_config_def getUserCollectionBids_config_def
  getUserListings_config_def getCollectionActivity_config_def getCollectionListings_config_def
  getUserActivity_config_def getCollectionStats_config_def

lemmas query_defs =
  getUserOwnedNFTs_def getCollectionBids_def getUserCollectionBids_def getUserListings_def
  getCollectionActivity_def getCollectionListings_def getUserActivity_def getCollectionStats_def

lemma request_of_trace [simp]: "trace_of (request_of w config) = [Call_axios_request config]"
  by (simp add: trace_of_def run_def request_of_def)

lemma request_of_outcome [simp]: "outcome (request_of w config) = axios_request w config"
  by (simp add: outcome_def run_def request_of_def)

lemma header_post [simp]: "header (post u key body) ''Authorization'' = Some key"
  by (simp add: header_def post_def json_headers_def)

lemma header_post_maxBodyLength [simp]:
  "header ((post u key body)\<lparr>maxBodyLength := x\<rparr>) ''Authorization'' = Some key"
  by (simp add: header_def post_def json_headers_def)

text \<open>
  C6, amended. Every operation of the Query Client issues exactly one request, and its
  \<^verbatim>\<open>Authorization\<close> header is the raw value of the module constant \<open>API_KEY\<close>, with no
  scheme in front of it. The constant is the empty string; no operation takes a key
  from its caller.
\<close>

theorem query_authorization_is_module_constant:
  "API_KEY = [] \<and>
   trace_of (getUserOwnedNFTs w walletAddress optCollection pagination)
     = [Call_axios_request (getUserOwnedNFTs_config walletAddress optCollection pagination)] \<and>
   header (getUserOwnedNFTs_config walletAddress optCollection pagination) ''Authorization''
     = Some API_KEY \<and>
   trace_of (getCollectionBids w collection pagination)
     = [Call_axios_request (getCollectionBids_config collection pagination)] \<and>
   header (getCollectionBids_config collection pagination) ''Authorization'' = Some API_KEY \<and>
   trace_of (getUserCollectionBids w collection walletAddress pagination)
     = [Call_axios_request (getUserCollectionBids_config collection walletAddress pagination)] \<and>
   header (getUserCollectionBids_config collection walletAddress pagination) ''Authorization''
     = Some API_KEY \<and>
   trace_of (getUserListings w walletAddress optCollection pagination)
     = [Call_axios_request (getUserListings_config walletAddress optCollection pagination)] \<and>
   header (getUserListings_config walletAddress optCollection pagination) ''Authorization''
     = Some API_KEY \<and>
   trace_of (getCollectionActivity w collection actionTypes pagination)
     = [Call_axios_request (getCollectionActivity_config collection actionTypes pagination)] \<and>
   header (getCollectionActivity_config collection actionTypes pagination) ''Authorization''
     = Some API_KEY \<and>
   trace_of (getCollectionListings w collection orderBy pagination)
     = [Call_axios_request (getCollectionListings_config collection orderBy pagination)] \<and>
   header (getCollectionListings_config collection orderBy pagination) ''Authorization''
     = Some API_KEY \<and>
   trace_of (getUserActivity w walletAddress actionTypes pagination)
     = [Call_axios_request (getUserActivity_config walletAddress actionTypes pagination)] \<and>
   header (getUserActivity_config walletAddress actionTypes pagination) ''Authorization''
     = Some API_KEY \<and>
   trace_of (getCollectionStats w optCollection orderBy pagination)
     = [Call_axios_request (getCollectionStats_config optCollection orderBy pagination)] \<and>
   header (getCollectionStats_config optCollection orderBy pagination) ''Authorization''
     = Some API_KEY"
  by (simp add: query_defs query_config_defs Let_def API_KEY_def)

text \<open>
  C6 as stated fails: a caller whose API key is that of the client \<open>sdk0\<close> issues
  \<open>getUserOwnedNFTs\<close>; the \<^verbatim>\<open>Authorization\<close> header of the request is the empty string, not
  the caller's key.
\<close>

theorem query_ignores_caller_key_counterexample:
  "apiKey sdk0 = ''key-123'' \<and>
   header (getUserOwnedNFTs_config ''0xWALLET'' None JUndefined) ''Authorization'' = Some [] \<and>
   header (getUserOwnedNFTs_config ''0xWALLET'' None JUndefined) ''Authorization''
     \<noteq> Some (apiKey sdk0)"
  by (simp add: getUserOwnedNFTs_config_def Let_def API_KEY_def sdk0_def constructor_def)

subsection \<open>The condition of a request body\<close>

text \<open>What the operations that branch on the optional collection send.\<close>

lemma getUserOwnedNFTs_condition:
  "member (data (getUserOwnedNFTs_config walletAddress None pagination)) ''condition''
     = Some (JObject [(''owner'', JString walletAddress)])"
  "collection \<noteq> [] \<Longrightarrow>
   member (data (getUserOwnedNFTs_config walletAddress (Some collection) pagination))
       ''condition''
     = Some (JObject [(''owner'', JString walletAddress),
                      (''project_ids'', JArray [JObject [(''project_id'', JString collection)]])])"
  by (simp_all add: getUserOwnedNFTs_config_def Let_def opt_string_def post_def member_def)

lemma getCollectionStats_condition:
  "member (data (getCollectionStats_config None orderBy pagination)) ''condition'' = None"
  "collection \<noteq> [] \<Longrightarrow>
   member (data (getCollectionStats_config (Some collection) orderBy pagination)) ''condition''
     = Some (JObject [(''project_ids'', JArray [JString collection])])"
  by (simp_all add: getCollectionStats_config_def Let_def opt_string_def post_def member_def)

lemma getCollectionActivity_condition:
  "member (data (getCollectionActivity_config collection None pagination)) ''condition''
     = Some (JObject [(''projects'', JArray [JObject [(''project_id'', JString collection)]])])"
  by (simp add: getCollectionActivity_config_def Let_def opt_strings_def post_def member_def)

lemma getUserActivity_condition:
  "member (data (getUserActivity_config walletAddress None pagination)) ''condition''
     = Some (JObject [(''user_address'', JString walletAddress)])"
  by (simp add: getUserActivity_config_def Let_def opt_strings_def post_def member_def)

text \<open>
  C7 at its failing input: \<open>getUserListings\<close> called without a collection. The condition
  of the body still has the member \<^verbatim>\<open>project_ids\<close>, holding one empty object: the
  collection filter is not left out, as it is by \<open>getUserOwnedNFTs\<close> and by
  \<open>getCollectionStats\<close>.
\<close>

theorem getUserListings_without_collection:
  "member (data (getUserListings_config walletAddress None pagination)) ''condition''
     = Some (JObject [(''owner'', JString walletAddress),
                      (''project_ids'', JArray [JObject []]),
                      (''listing_type'', JString ''NORMAL'')]) \<and>
   map_option keys
       (member (data (getUserListings_config walletAddress None pagination)) ''condition'')
     = Some [''owner'', ''project_ids'', ''listing_type'']"
  by (simp add: getUserListings_config_def Let_def opt_string_def post_def member_def keys_def)

section \<open>Bids and listings end with signature validation\<close>















section \<open>The approval transaction is submitted only when needed\<close>

lemma listNFT_approval_tx_iff:
  "list_ex is_approval_tx (trace_of (listNFT w sdk c t p)) = (erc721_status w sdk c = Inr False)"
  by (auto simp: op_defs listNFT_def erc721_status_def split: sum.splits if_splits)

lemma listNFT_no_late_approval:
  "\<not> list_ex is_approval_tx (from_first_http (trace_of (listNFT w sdk c t p)))"
  by (auto simp: op_defs listNFT_def from_first_http_def split: sum.splits if_splits)

lemma listNFT_approval_awaited:
  "erc721_status w sdk c = Inr False \<Longrightarrow> approveErc721 w c = Inl e \<Longrightarrow>
   \<not> list_ex is_http (trace_of (listNFT w sdk c t p))"
  by (simp add: op_defs listNFT_def erc721_status_def)

lemma listNFT_approved:
  "erc721_status w sdk c = Inr True \<Longrightarrow>
   take 2 (trace_of (listNFT w sdk c t p))
     = [Call_getERC721ApprovalStatus (wallet sdk) c,
        Call_axios_request (listNFT_requestConfig sdk c t p)]"
  by (auto simp: op_defs listNFT_def erc721_status_def split: sum.splits if_splits)

lemma acceptCollectionBid_approval_tx_iff:
  "list_ex is_approval_tx (trace_of (acceptCollectionBid w sdk c t p m))
     = (erc721_status w sdk c = Inr False)"
  by (auto simp: op_defs acceptCollectionBid_def erc721_status_def split: sum.splits if_splits)

lemma acceptCollectionBid_no_late_approval:
  "\<not> list_ex is_approval_tx (from_first_http (trace_of (acceptCollectionBid w sdk c t p m)))"
  by (auto simp: op_defs acceptCollectionBid_def from_first_http_def
      split: sum.splits if_splits)

lemma acceptCollectionBid_approval_awaited:
  "erc721_status w sdk c = Inr False \<Longrightarrow> approveErc721 w c = Inl e \<Longrightarrow>
   \<not> list_ex is_http (trace_of (acceptCollectionBid w sdk c t p m))"
  by (simp add: op_defs acceptCollectionBid_def erc721_status_def)

lemma acceptCollectionBid_approved:
  "erc721_status w sdk c = Inr True \<Longrightarrow>
   take 2 (trace_of (acceptCollectionBid w sdk c t p m))
     = [Call_getERC721ApprovalStatus (wallet sdk) c,
        Call_axios_request (acceptCollectionBid_requestConfig sdk c t p m)]"
  by (auto simp: op_defs acceptCollectionBid_def erc721_status_def split: sum.splits if_splits)

lemma createCollectionBid_approval_tx_iff:
  "list_ex is_approval_tx (trace_of (createCollectionBid w sdk c n))
     = (wavax_status w sdk = Inr False)"
  by (auto simp: op_defs createCollectionBid_def wavax_status_def bind_result_def
      split: sum.splits if_splits)

lemma createCollectionBid_no_late_approval:
  "\<not> list_ex is_approval_tx (from_first_http (trace_of (createCollectionBid w sdk c n)))"
  by (auto simp: op_defs createCollectionBid_def from_first_http_def
      split: sum.splits if_splits)

lemma createCollectionBid_approval_awaited:
  "wavax_status w sdk = Inr False \<Longrightarrow> approveWavax w = Inl e \<Longrightarrow>
   \<not> list_ex is_http (trace_of (createCollectionBid w sdk c n))"
  by (auto simp: op_defs createCollectionBid_def wavax_status_def bind_result_def
      split: sum.splits)

lemma createCollectionBid_approved:
  "getWavaxBalance w (wallet sdk) = Inr bal \<Longrightarrow>
   getWavaxApprovalStatus w (wallet sdk) bal = Inr True \<Longrightarrow>
   take 3 (trace_of (createCollectionBid w sdk c n))
     = [Call_getWavaxBalance (wallet sdk),
        Call_getWavaxApprovalStatus (wallet sdk) bal,
        Call_axios_request (createCollectionBid_requestConfig sdk c n)]"
  by (auto simp: op_defs createCollectionBid_def split: sum.splits if_splits)

text \<open>
  C9. In \<open>createCollectionBid\<close>, \<open>listNFT\<close> and \<open>acceptCollectionBid\<close>, whatever the world
  answers:
  \<^item> the trace contains an approval transaction exactly when the approval-status check
    reported "not approved";
  \<^item> no approval transaction is submitted from the first HTTP request on, so an approval
    transaction always precedes the marketplace build call;
  \<^item> when the check reports "not approved" and the approval transaction fails, no HTTP
    request is made: the build call waits for the approval;
  \<^item> when the check reports "approved", the call right after the check is the build call.
\<close>

theorem approval_only_when_not_approved:
  "list_ex is_approval_tx (trace_of (createCollectionBid w sdk c n))
     = (wavax_status w sdk = Inr False) \<and>
   list_ex is_approval_tx (trace_of (listNFT w sdk c t p))
     = (erc721_status w sdk c = Inr False) \<and>
   list_ex is_approval_tx (trace_of (acceptCollectionBid w sdk c t p m))
     = (erc721_status w sdk c = Inr False) \<and>
   \<not> list_ex is_approval_tx (from_first_http (trace_of (createCollectionBid w sdk c n))) \<and>
   \<not> list_ex is_approval_tx (from_first_http (trace_of (listNFT w sdk c t p))) \<and>
   \<not> list_ex is_approval_tx (from_first_http (trace_of (acceptCollectionBid w sdk c t p m))) \<and>
   (wavax_status w sdk = Inr False \<and> approveWavax w = Inl e \<longrightarrow>
      \<not> list_ex is_http (trace_of (createCollectionBid w sdk c n))) \<and>
   (erc721_status w sdk c = Inr False \<and> approveErc721 w c = Inl e \<longrightarrow>
      \<not> list_ex is_http (trace_of (listNFT w sdk c t p))) \<and>
   (erc721_status w sdk c = Inr False \<and> approveErc721 w c = Inl e \<longrightarrow>
      \<not> list_ex is_http (trace_of (acceptCollectionBid w sdk c t p m))) \<and>
   (getWavaxBalance w (wallet sdk) = Inr bal \<and>
    getWavaxApprovalStatus w (wallet sdk) bal = Inr True \<longrightarrow>
      take 3 (trace_of (createCollectionBid w sdk c n))
        = [Call_getWavaxBalance (wallet sdk),
           Call_getWavaxApprovalStatus (wallet sdk) bal,
           Call_axios_request (createCollectionBid_requestConfig sdk c n)]) \<and>
   (erc721_status w sdk c = Inr True \<longrightarrow>
      take 2 (trace_of (listNFT w sdk c t p))
        = [Call_getERC721ApprovalStatus (wallet sdk) c,
           Call_axios_request (listNFT_requestConfig sdk c t p)]) \<and>
   (erc721_status w sdk c = Inr True \<longrightarrow>
      take 2 (trace_of (acceptCollectionBid w sdk c t p m))
        = [Call_getERC721ApprovalStatus (wallet sdk) c,
           Call_axios_request (acceptCollectionBid_requestConfig sdk c t p m)])"
  using listNFT_approval_tx_iff[of w sdk c t p] listNFT_no_late_approval[of w sdk c t p]
    listNFT_approval_awaited[of w sdk c e t p] listNFT_approved[of w sdk c t p]
    acceptCollectionBid_approval_tx_iff[of w sdk c t p m]
    acceptCollectionBid_no_late_approval[of w sdk c t p m]
    acceptCollectionBid_approval_awaited[of w sdk c e t p m]
    acceptCollectionBid_approved[of w sdk c t p m]
    createCollectionBid_approval_tx_iff[of w sdk c n]
    createCollectionBid_no_late_approval[of w sdk c n]
    createCollectionBid_approval_awaited[of w sdk e c n]
    createCollectionBid_approved[of w sdk bal c n]
  by blast

text \<open>
  Witness: with approval in place no approval transaction appears and the build call
  follows the check; with approval missing the approval transaction appears; when it
  fails, no request is sent.
\<close>

theorem approval_only_when_not_approved_witness:
  "\<not> list_ex is_approval_tx (trace_of (createCollectionBid world_ok sdk0 ''0xAA'' 100)) \<and>
   \<not> list_ex is_approval_tx (trace_of (listNFT world_ok sdk0 ''0xAA'' ''7'' 100)) \<and>
   \<not> list_ex is_approval_tx
       (trace_of (acceptCollectionBid world_ok sdk0 ''0xAA'' ''7'' 100 listing0)) \<and>
   take 3 (trace_of (createCollectionBid world_ok sdk0 ''0xAA'' 100))
     = [Call_getWavaxBalance (wallet sdk0),
        Call_getWavaxApprovalStatus (wallet sdk0) 5000,
        Call_axios_request (createCollectionBid_requestConfig sdk0 ''0xAA'' 100)] \<and>
   take 2 (trace_of (listNFT world_ok sdk0 ''0xAA'' ''7'' 100))
     = [Call_getERC721ApprovalStatus (wallet sdk0) ''0xAA'',
        Call_axios_request (listNFT_requestConfig sdk0 ''0xAA'' ''7'' 100)] \<and>
   take 2 (trace_of (acceptCollectionBid world_ok sdk0 ''0xAA'' ''7'' 100 listing0))
     = [Call_getERC721ApprovalStatus (wallet sdk0) ''0xAA'',
        Call_axios_request (acceptCollectionBid_requestConfig sdk0 ''0xAA'' ''7'' 100 listing0)] \<and>
   list_ex is_approval_tx
     (trace_of (createCollectionBid
        (world_ok\<lparr>getWavaxApprovalStatus := \<lambda>owner b. Inr False\<rparr>) sdk0 ''0xAA'' 100)) \<and>
   list_ex is_approval_tx
     (trace_of (listNFT
        (world_ok\<lparr>getERC721ApprovalStatus := \<lambda>owner c. Inr False\<rparr>) sdk0 ''0xAA'' ''7'' 100)) \<and>
   \<not> list_ex is_http
     (trace_of (createCollectionBid
        (world_ok\<lparr>getWavaxApprovalStatus := \<lambda>owner b. Inr False,
                   approveWavax := Inl (Error ''out of gas'')\<rparr>) sdk0 ''0xAA'' 100)) \<and>
   \<not> list_ex is_http
     (trace_of (listNFT
        (world_ok\<lparr>getERC721ApprovalStatus := \<lambda>owner c. Inr False,
                   approveErc721 := \<lambda>c. Inl (Error ''out of gas'')\<rparr>) sdk0 ''0xAA'' ''7'' 100)) \<and>
   \<not> list_ex is_http
     (trace_of (acceptCollectionBid
        (world_ok\<lparr>getERC721ApprovalStatus := \<lambda>owner c. Inr False,
                   approveErc721 := \<lambda>c. Inl (Error ''out of gas'')\<rparr>)
        sdk0 ''0xAA'' ''7'' 100 listing0))"
proof -
  let ?wu = "world_ok\<lparr>getWavaxApprovalStatus := \<lambda>owner b. Inr False\<rparr>"
  let ?eu = "world_ok\<lparr>getERC721ApprovalStatus := \<lambda>owner c. Inr False\<rparr>"
  let ?wf = "world_ok\<lparr>getWavaxApprovalStatus := \<lambda>owner b. Inr False,
                        approveWavax := Inl (Error ''out of gas'')\<rparr>"
  let ?ef = "world_ok\<lparr>getERC721ApprovalStatus := \<lambda>owner c. Inr False,
                        approveErc721 := \<lambda>c. Inl (Error ''out of gas'')\<rparr>"
  have s: "wavax_status world_ok sdk0 = Inr True" "erc721_status world_ok sdk0 ''0xAA'' = Inr True"
    "wavax_status ?wu sdk0 = Inr False" "erc721_status ?eu sdk0 ''0xAA'' = Inr False"
    "wavax_status ?wf sdk0 = Inr False" "erc721_status ?ef sdk0 ''0xAA'' = Inr False"
    by (simp_all add: wavax_status_def erc721_status_def)
  note A = approval_only_when_not_approved
    [where w = world_ok and sdk = sdk0 and c = "''0xAA''" and t = "''7''" and p = 100
       and n = 100 and m = listing0 and bal = 5000]
  note B = approval_only_when_not_approved
    [where w = ?wu and sdk = sdk0 and c = "''0xAA''" and n = 100]
  note C = approval_only_when_not_approved
    [where w = ?eu and sdk = sdk0 and c = "''0xAA''" and t = "''7''" and p = 100]
  note D = approval_only_when_not_approved
    [where w = ?wf and sdk = sdk0 and c = "''0xAA''" and n = 100
       and e = "Error ''out of gas''"]
  note E = approval_only_when_not_approved
    [where w = ?ef and sdk = sdk0 and c = "''0xAA''" and t = "''7''" and p = 100
       and m = listing0 and e = "Error ''out of gas''"]
  from A s(1,2) have
    "\<not> list_ex is_approval_tx (trace_of (createCollectionBid world_ok sdk0 ''0xAA'' 100))"
    "\<not> list_ex is_approval_tx (trace_of (listNFT world_ok sdk0 ''0xAA'' ''7'' 100))"
    "\<not> list_ex is_approval_tx
        (trace_of (acceptCollectionBid world_ok sdk0 ''0xAA'' ''7'' 100 listing0))"
    "take 3 (trace_of (createCollectionBid world_ok sdk0 ''0xAA'' 100))
       = [Call_getWavaxBalance (wallet sdk0),
          Call_getWavaxApprovalStatus (wallet sdk0) 5000,
          Call_axios_request (createCollectionBid_requestConfig sdk0 ''0xAA'' 100)]"
    "take 2 (trace_of (listNFT world_ok sdk0 ''0xAA'' ''7'' 100))
       = [Call_getERC721ApprovalStatus (wallet sdk0) ''0xAA'',
          Call_axios_request (listNFT_requestConfig sdk0 ''0xAA'' ''7'' 100)]"
    "take 2 (trace_of (acceptCollectionBid world_ok sdk0 ''0xAA'' ''7'' 100 listing0))
       = [Call_getERC721ApprovalStatus (wallet sdk0) ''0xAA'',
          Call_axios_request
            (acceptCollectionBid_requestConfig sdk0 ''0xAA'' ''7'' 100 listing0)]"
    by simp_all
  moreover from B s(3) have
    "list_ex is_approval_tx (trace_of (createCollectionBid ?wu sdk0 ''0xAA'' 100))"
    by simp
  moreover from C s(4) have
    "list_ex is_approval_tx (trace_of (listNFT ?eu sdk0 ''0xAA'' ''7'' 100))"
    by simp
  moreover from D s(5) have
    "\<not> list_ex is_http (trace_of (createCollectionBid ?wf sdk0 ''0xAA'' 100))"
    by simp
  moreover from E s(6) have
    "\<not> list_ex is_http (trace_of (listNFT ?ef sdk0 ''0xAA'' ''7'' 100))"
    "\<not> list_ex is_http (trace_of (acceptCollectionBid ?ef sdk0 ''0xAA'' ''7'' 100 listing0))"
    by simp_all
  ultimately show ?thesis by simp
qed

section \<open>A purchase whose listing lacks the event log\<close>

lemma totalAmountToPay_missing_event_log:
  "js_get metadata ''event_log'' = Inr JUndefined \<Longrightarrow>
   js_get JUndefined ''erc20TokenAmount'' = Inl e \<Longrightarrow>
   totalAmountToPay metadata = Inl e"
  by (simp add: totalAmountToPay_def)

lemma buyNft_payment_error:
  assumes "totalAmountToPay metadata = Inl e"
  shows "\<not> list_ex is_broadcast (trace_of (buyNft w sdk c t p metadata))"
  using assms by (auto simp: op_defs buyNft_def split: sum.splits)

lemma buyNft_payment_error_after_build:
  assumes "totalAmountToPay metadata = Inl e"
    and "axios_request w (buyNft_requestConfig sdk c t p metadata) = Inr res"
  shows "outcome (buyNft w sdk c t p metadata) = catch_result e"
  using assms by (simp add: op_defs buyNft_def)

lemma buyNft_missing_event_log_after_build:
  assumes "js_get metadata ''event_log'' = Inr JUndefined"
    and "axios_request w (buyNft_requestConfig sdk c t p metadata) = Inr res"
  shows "\<exists>msg. outcome (buyNft w sdk c t p metadata) = Inr (failed msg)"
proof -
  have "totalAmountToPay metadata
          = Inl (TypeError (''Cannot read properties of undefined (reading '' @
                   quote ''erc20TokenAmount'' @ '')''))"
    using totalAmountToPay_missing_event_log[OF assms(1)] by simp
  from buyNft_payment_error_after_build[OF this assms(2)] show ?thesis
    by (metis catch_result_Error(2))
qed

lemma buyNft_build_failure_result:
  "axios_request w (buyNft_requestConfig sdk c t p metadata) = Inl e \<Longrightarrow>
   outcome (buyNft w sdk c t p metadata) = catch_result e"
  by (simp add: op_defs buyNft_def)

lemma totalAmountToPay_no_fees:
  assumes "js_get metadata ''event_log'' = Inr event_log"
    and "js_get event_log ''erc20TokenAmount'' = Inr (JString amount)"
    and "is_decimal amount"
    and "js_get event_log ''fees'' = Inr (JArray [])"
  shows "totalAmountToPay metadata = Inr (decimal_value amount)"
  using totalAmountToPay_sum[OF assms(1-4), of "[]"] by simp

text \<open>
  C10, amended. For every \<^verbatim>\<open>metadata\<close> whose \<^verbatim>\<open>event_log\<close> is missing, \<open>buyNft\<close> broadcasts
  no transaction, whatever the remote build call answers. When the build call succeeds,
  even returning a \<^verbatim>\<open>byte_string\<close>, \<open>buyNft\<close> resolves to
  \<^verbatim>\<open>{ digest: null, errors: <string> }\<close>: the payment is computed before the \<^verbatim>\<open>byte_string\<close>
  test, reading a property of \<^verbatim>\<open>undefined\<close> throws a \<^verbatim>\<open>TypeError\<close>, and the \<^verbatim>\<open>catch\<close> block
  returns its message. When the build call itself fails, \<open>buyNft\<close> completes as the
  \<^verbatim>\<open>catch\<close> block does for that failure: for an \<^verbatim>\<open>Error\<close> object it resolves to
  \<^verbatim>\<open>{ digest: null, errors: <its message> }\<close>. An empty \<^verbatim>\<open>fees\<close> array does not throw: the reduced
  array still holds the listed amount, and the payment is that amount.
\<close>

theorem buyNft_missing_event_log:
  "(js_get metadata ''event_log'' = Inr JUndefined \<longrightarrow>
      \<not> list_ex is_broadcast (trace_of (buyNft w sdk c t p metadata))) \<and>
   (js_get metadata ''event_log'' = Inr JUndefined \<and>
    axios_request w (buyNft_requestConfig sdk c t p metadata) = Inr res \<longrightarrow>
      (\<exists>msg. outcome (buyNft w sdk c t p metadata) = Inr (failed msg))) \<and>
   (js_get metadata ''event_log'' = Inr JUndefined \<and>
    axios_request w (buyNft_requestConfig sdk c t p metadata) = Inr res \<and>
    js_get JUndefined ''erc20TokenAmount'' = Inl e \<longrightarrow>
      outcome (buyNft w sdk c t p metadata) = catch_result e) \<and>
   (js_get metadata ''event_log'' = Inr JUndefined \<and>
    axios_request w (buyNft_requestConfig sdk c t p metadata) = Inl e \<longrightarrow>
      outcome (buyNft w sdk c t p metadata) = catch_result e) \<and>
   (js_get metadata ''event_log'' = Inr JUndefined \<and>
    axios_request w (buyNft_requestConfig sdk c t p metadata) = Inl (Error msg0) \<longrightarrow>
      outcome (buyNft w sdk c t p metadata) = Inr (failed msg0)) \<and>
   (js_get metadata ''event_log'' = Inr event_log \<and>
    js_get event_log ''erc20TokenAmount'' = Inr (JString amount) \<and> is_decimal amount \<and>
    js_get event_log ''fees'' = Inr (JArray []) \<longrightarrow>
      totalAmountToPay metadata = Inr (decimal_value amount))"
proof (intro conjI impI)
  assume a: "js_get metadata ''event_log'' = Inr JUndefined"
  obtain e0 where e: "totalAmountToPay metadata = Inl e0"
    using totalAmountToPay_missing_event_log[OF a] by simp
  show "\<not> list_ex is_broadcast (trace_of (buyNft w sdk c t p metadata))"
    using buyNft_payment_error[OF e] .
next
  assume "js_get metadata ''event_log'' = Inr JUndefined \<and>
    axios_request w (buyNft_requestConfig sdk c t p metadata) = Inr res"
  then show "\<exists>msg. outcome (buyNft w sdk c t p metadata) = Inr (failed msg)"
    using buyNft_missing_event_log_after_build[of metadata w sdk c t p res] by simp
next
  assume a: "js_get metadata ''event_log'' = Inr JUndefined \<and>
    axios_request w (buyNft_requestConfig sdk c t p metadata) = Inr res \<and>
    js_get JUndefined ''erc20TokenAmount'' = Inl e"
  then show "outcome (buyNft w sdk c t p metadata) = catch_result e"
    using buyNft_payment_error_after_build
      [OF totalAmountToPay_missing_event_log, of metadata e w sdk c t p res]
    by simp
next
  assume "js_get metadata ''event_log'' = Inr JUndefined \<and>
    axios_request w (buyNft_requestConfig sdk c t p metadata) = Inl e"
  then show "outcome (buyNft w sdk c t p metadata) = catch_result e"
    using buyNft_build_failure_result[of w sdk c t p metadata e] by simp
next
  assume "js_get metadata ''event_log'' = Inr JUndefined \<and>
    axios_request w (buyNft_requestConfig sdk c t p metadata) = Inl (Error msg0)"
  then show "outcome (buyNft w sdk c t p metadata) = Inr (failed msg0)"
    using buyNft_build_failure_result[of w sdk c t p metadata "Error msg0"] by simp
next
  assume "js_get metadata ''event_log'' = Inr event_log \<and>
    js_get event_log ''erc20TokenAmount'' = Inr (JString amount) \<and> is_decimal amount \<and>
    js_get event_log ''fees'' = Inr (JArray [])"
  then show "totalAmountToPay metadata = Inr (decimal_value amount)"
    using totalAmountToPay_no_fees[of metadata event_log amount] by simp
qed

text \<open>
  Witness: a listing with no \<^verbatim>\<open>event_log\<close>, bought in the world where everything
  succeeds and in a world whose remote service answers with a 500, and the listing
  without fees.
\<close>

theorem buyNft_missing_event_log_witness:
  "outcome (buyNft world_ok sdk0 ''0xAA'' ''7'' 100 (JObject [(''price'', JString ''1000'')]))
     = Inr (failed (''Cannot read properties of undefined (reading '' @
              quote ''erc20TokenAmount'' @ '')'')) \<and>
   outcome (buyNft
      (world_ok\<lparr>axios_request := \<lambda>r. Inl (Error ''Request failed with status code 500'')\<rparr>)
      sdk0 ''0xAA'' ''7'' 100 (JObject [(''price'', JString ''1000'')]))
     = Inr (failed ''Request failed with status code 500'') \<and>
   \<not> list_ex is_broadcast
       (trace_of (buyNft world_ok sdk0 ''0xAA'' ''7'' 100
          (JObject [(''price'', JString ''1000'')]))) \<and>
   totalAmountToPay listing_no_fees = Inr 1000"
proof -
  let ?m = "JObject [(''price'', JString ''1000'')]"
  let ?el = "JObject [(''erc20TokenAmount'', JString ''1000''), (''fees'', JArray [])]"
  have 1: "js_get ?m ''event_log'' = Inr JUndefined"
    by simp
  have 2: "axios_request world_ok (buyNft_requestConfig sdk0 ''0xAA'' ''7'' 100 ?m)
             = Inr build_response"
    by simp
  have 3: "js_get listing_no_fees ''event_log'' = Inr ?el"
    "js_get ?el ''erc20TokenAmount'' = Inr (JString ''1000'')"
    "is_decimal ''1000''"
    "js_get ?el ''fees'' = Inr (JArray [])"
    by (simp_all add: listing_no_fees_def is_decimal_def is_digit_def)
  have 4: "decimal_value ''1000'' = 1000"
    by (simp add: digit_of_def)
  have 5: "js_get JUndefined ''erc20TokenAmount''
             = Inl (TypeError (''Cannot read properties of undefined (reading '' @
                      quote ''erc20TokenAmount'' @ '')''))"
    by simp
  note A = buyNft_missing_event_log
    [where metadata = ?m and w = world_ok and sdk = sdk0 and c = "''0xAA''" and t = "''7''"
       and p = 100 and res = build_response
       and e = "TypeError (''Cannot read properties of undefined (reading '' @
                  quote ''erc20TokenAmount'' @ '')'')"]
  note B = buyNft_missing_event_log
    [where metadata = listing_no_fees and event_log = ?el and amount = "''1000''"]
  note C = buyNft_missing_event_log
    [where metadata = ?m and sdk = sdk0 and c = "''0xAA''" and t = "''7''" and p = 100
       and w = "world_ok\<lparr>axios_request :=
                  \<lambda>r. Inl (Error ''Request failed with status code 500'')\<rparr>"
       and e = "Error ''Request failed with status code 500''"]
  from A 1 2 5 have
    "outcome (buyNft world_ok sdk0 ''0xAA'' ''7'' 100 ?m)
       = Inr (failed (''Cannot read properties of undefined (reading '' @
                quote ''erc20TokenAmount'' @ '')''))"
    "\<not> list_ex is_broadcast (trace_of (buyNft world_ok sdk0 ''0xAA'' ''7'' 100 ?m))"
    by simp_all
  moreover from B 3 4 have "totalAmountToPay listing_no_fees = Inr 1000"
    by simp
  moreover from C 1 have
    "outcome (buyNft
        (world_ok\<lparr>axios_request := \<lambda>r. Inl (Error ''Request failed with status code 500'')\<rparr>)
        sdk0 ''0xAA'' ''7'' 100 ?m)
       = Inr (failed ''Request failed with status code 500'')"
    by simp
  ultimately show ?thesis by simp
qed

text \<open>
  C10 as stated fails for an empty \<^verbatim>\<open>fees\<close> array: with the listing of amount 1000 and
  no fees, \<open>buyNft\<close> broadcasts the transaction with value 1000 and reports its hash.
\<close>

theorem buyNft_empty_fees_counterexample:
  "js_get listing_no_fees ''event_log''
     = Inr (JObject [(''erc20TokenAmount'', JString ''1000''), (''fees'', JArray [])]) \<and>
   trace_of (buyNft world_ok sdk0 ''0xAA'' ''7'' 100 listing_no_fees)
     = [Call_axios_request (buyNft_requestConfig sdk0 ''0xAA'' ''7'' 100 listing_no_fees),
        Call_handleSignAndExecute \<lparr>tx_data = JString ''0xBYTES'', tx_value = Some 1000\<rparr>] \<and>
   outcome (buyNft world_ok sdk0 ''0xAA'' ''7'' 100 listing_no_fees)
     = Inr \<lparr>digest = Some ''0xHASH'', errors = JNull, tokensPurchased = None\<rparr>"
proof -
  have v: "totalAmountToPay listing_no_fees = Inr 1000"
    by code_simp
  have b: "first_element_field (res_data build_response) ''byte_string''
             = Inr (JString ''0xBYTES'')"
    "bind_result (js_get (res_data build_response) ''0'') (\<lambda>d0. js_get d0 ''byte_string'')
       = Inr (JString ''0xBYTES'')"
    using build_response_byte_string usable_payload_read[OF build_response_byte_string]
    by (simp_all add: usable_payload_def)
  have e: "js_get listing_no_fees ''event_log''
     = Inr (JObject [(''erc20TokenAmount'', JString ''1000''), (''fees'', JArray [])])"
    by (simp add: listing_no_fees_def)
  show ?thesis
    using e by (simp add: op_defs buyNft_def v b receipt_ok_def truthy_hash_def)
qed

end
